theory Spec2Isabelle
  imports Main
begin

section \<open>Data model\<close>

text \<open>
  The embedding follows \<^verbatim>\<open>letsencrypt/client/network2.py\<close> (class \<^verbatim>\<open>Network\<close>).
  Python attributes that may hold \<^verbatim>\<open>None\<close> are options. The spec's fault names stand for
  the exception classes of the source as follows: TransportFault is
  \<^verbatim>\<open>errors.NetworkError\<close>, ProtocolError is \<^verbatim>\<open>messages2.Error\<close> and
  UnexpectedUpdateFault is \<^verbatim>\<open>errors.UnexpectedUpdate\<close>.
\<close>

type_synonym uri = string

text \<open>A parsed JSON document, as \<^verbatim>\<open>response.json()\<close> returns it.\<close>

datatype json =
    JNull
  | JBool bool
  | JInt int
  | JString string
  | JList "json list"
  | JDict "(string \<times> json) list"

text \<open>A JSON web key: its key material and whether it carries the private part.\<close>

datatype jwk = JWK nat bool

fun public :: "jwk \<Rightarrow> jwk" where
  "public (JWK n _) = JWK n False"

datatype alg = RS256 | OtherAlg string

text \<open>
  Modelled from the spec: \<^verbatim>\<open>messages2.py\<close> and \<^verbatim>\<open>challenges.py\<close> are not among the
  sources. The bodies and resources carry the fields the spec lists and the source reads
  and writes (\<^verbatim>\<open>body\<close>, \<^verbatim>\<open>uri\<close>, \<^verbatim>\<open>new_authz_uri\<close>, \<^verbatim>\<open>terms_of_service\<close>,
  \<^verbatim>\<open>new_cert_uri\<close>, \<^verbatim>\<open>cert_chain_uri\<close>, \<^verbatim>\<open>authzrs\<close>); a status is a named constant,
  of which the source uses \<^verbatim>\<open>STATUS_VALID\<close>.
\<close>

datatype status = Status string

definition STATUS_VALID :: status where
  "STATUS_VALID = Status ''valid''"

definition STATUS_PENDING :: status where
  "STATUS_PENDING = Status ''pending''"

definition STATUS_INVALID :: status where
  "STATUS_INVALID = Status ''invalid''"

datatype acme_identifier = Identifier string string

datatype challenge = Challenge string string

datatype x509 = X509 string

datatype acme_error = Error string string

record registration =
  reg_key :: "jwk option"
  reg_contact :: "string list"

record authorization =
  authz_identifier :: acme_identifier
  authz_key :: "jwk option"
  authz_status :: status
  authz_challenges :: "challenge list"

record registration_resource =
  regr_body :: registration
  regr_uri :: "uri option"
  regr_new_authz_uri :: uri
  regr_terms_of_service :: "uri option"

record authorization_resource =
  authzr_body :: authorization
  authzr_uri :: "uri option"
  authzr_new_cert_uri :: uri

record challenge_resource =
  challr_body :: challenge
  challr_uri :: "uri option"

record certificate_resource =
  certr_body :: x509
  certr_uri :: "uri option"
  certr_cert_chain_uri :: uri
  certr_authzrs :: "authorization_resource list"

text \<open>The messages the client signs and sends, and the signed envelope.\<close>

datatype message =
    Registration_msg registration
  | Authorization_msg acme_identifier
  | ChallengeResponse_msg string
  | CertificateRequest_msg string "uri option list"
  | Revocation_msg string "uri option list"

datatype jws = JWS message jwk alg

subsection \<open>HTTP exchange\<close>

datatype http_verb = GET | POST

record request =
  meth :: http_verb
  req_uri :: "uri option"
  payload :: "jws option"
  req_headers :: "(string \<times> string) list"

text \<open>
  A \<^verbatim>\<open>requests.Response\<close>: the attributes the source reads. \<open>headers\<close> is keyed by the
  header names as the source spells them, \<open>links\<close> maps a link relation to its
  \<^verbatim>\<open>url\<close>, and \<open>resp_json\<close> is \<open>None\<close> where \<^verbatim>\<open>response.json()\<close> raises
  \<^verbatim>\<open>ValueError\<close>. For the body \<^verbatim>\<open>null\<close> it is \<open>Some JNull\<close>: \<^verbatim>\<open>response.json()\<close> returns
  Python's \<^verbatim>\<open>None\<close> then.
\<close>

record response =
  status_code :: int
  ok :: bool
  headers :: "string \<rightharpoonup> string"
  links :: "string \<rightharpoonup> uri"
  resp_json :: "json option"
  resp_text :: string

datatype network_error =
    NE_request_exception
  | NE_response response
  | NE_response_error response
  | NE_message string

datatype unexpected =
    UU_regr registration_resource
  | UU_authzr authorization_resource
  | UU_location string
  | UU_text string

datatype error =
    NetworkError network_error
  | Messages2Error acme_error
  | UnexpectedUpdate unexpected
  | DeserializationError
  | X509Error
  | KeyError string
  | ValueError
  | IndexError
  | TypeError
  | OverflowError
  | AssertionError

fun is_TransportFault :: "error + 'a \<Rightarrow> bool" where
  "is_TransportFault (Inl (NetworkError _)) = True"
| "is_TransportFault _ = False"

fun is_ProtocolError :: "error + 'a \<Rightarrow> bool" where
  "is_ProtocolError (Inl (Messages2Error _)) = True"
| "is_ProtocolError _ = False"

fun is_UnexpectedUpdateFault :: "error + 'a \<Rightarrow> bool" where
  "is_UnexpectedUpdateFault (Inl (UnexpectedUpdate _)) = True"
| "is_UnexpectedUpdateFault _ = False"

text \<open>
  The deserialisers and parsers of the modules the source imports (\<^verbatim>\<open>messages2\<close>,
  \<^verbatim>\<open>challenges\<close>, \<^verbatim>\<open>M2Crypto\<close>, \<^verbatim>\<open>werkzeug\<close>) are parameters of the model. \<open>None\<close> is
  \<^verbatim>\<open>jose.DeserializationError\<close> for the \<^verbatim>\<open>from_json\<close> functions, an X509 error for
  \<^verbatim>\<open>load_cert_der_string\<close>, and the \<^verbatim>\<open>None\<close> that \<^verbatim>\<open>werkzeug.parse_date\<close> returns for a
  string that is no date. Times are the naive times of \<^verbatim>\<open>datetime\<close>, in microseconds since
  1970-01-01 00:00:00.
\<close>

record deps =
  Registration_from_json :: "json \<Rightarrow> registration option"
  Authorization_from_json :: "json \<Rightarrow> authorization option"
  Challenge_from_json :: "json \<Rightarrow> challenge option"
  Error_from_json :: "json \<Rightarrow> acme_error option"
  load_cert_der_string :: "string \<Rightarrow> x509 option"
  parse_date :: "string \<Rightarrow> int option"

text \<open>
  The world outside the client: a clock in microseconds and the requests sent so far, each
  with the time it was sent at. The environment answers a request, in the world it is sent
  in, with the time the exchange takes and a response, or \<open>None\<close> for a
  \<^verbatim>\<open>requests.exceptions.RequestException\<close>.
\<close>

record world =
  clock :: int
  trace :: "(int \<times> request) list"

type_synonym environment = "world \<Rightarrow> request \<Rightarrow> nat \<times> response option"

record network =
  new_reg_uri :: uri
  key :: jwk
  alg :: alg

definition DER_CONTENT_TYPE :: string where
  "DER_CONTENT_TYPE = ''application/plix-cert''"

definition JSON_CONTENT_TYPE :: string where
  "JSON_CONTENT_TYPE = ''application/json''"

definition JSON_ERROR_CONTENT_TYPE :: string where
  "JSON_ERROR_CONTENT_TYPE = ''application/problem+json''"

definition CREATED :: int where
  "CREATED = 201"

definition OK :: int where
  "OK = 200"

section \<open>Signing, transport and response checking\<close>

definition wrap_in_jws :: "network \<Rightarrow> message \<Rightarrow> jws" where
  "wrap_in_jws net m = JWS m (key net) (alg net)"

text \<open>
  The \<^verbatim>\<open>jobj\<close> of \<^verbatim>\<open>_check_response\<close>: what \<^verbatim>\<open>response.json()\<close> returns, or \<^verbatim>\<open>None\<close>
  where it raises \<^verbatim>\<open>ValueError\<close>. The body \<^verbatim>\<open>null\<close> parses to \<^verbatim>\<open>None\<close> as well, so that
  \<^verbatim>\<open>jobj is not None\<close> is false for it.
\<close>

definition jobj :: "response \<Rightarrow> json option" where
  "jobj r = (case resp_json r of None \<Rightarrow> None | Some JNull \<Rightarrow> None | Some j \<Rightarrow> Some j)"

text \<open>
  \<^verbatim>\<open>_check_response\<close>. The two \<^verbatim>\<open>logging.debug\<close> calls have no effect on the outcome
  and are left out.
\<close>

definition check_response :: "deps \<Rightarrow> response \<Rightarrow> string option \<Rightarrow> error + unit" where
  "check_response dp r content_type =
     (case headers r ''content-type'' of
        None \<Rightarrow> Inl (KeyError ''content-type'')
      | Some response_ct \<Rightarrow>
          if \<not> ok r then
            (case jobj r of
               Some j \<Rightarrow>
                 (case Error_from_json dp j of
                    Some e \<Rightarrow> Inl (Messages2Error e)
                  | None \<Rightarrow> Inl (NetworkError (NE_response_error r)))
             | None \<Rightarrow> Inl (NetworkError (NE_response r)))
          else if content_type \<noteq> None \<and> Some response_ct \<noteq> content_type
                  \<and> content_type \<noteq> Some JSON_CONTENT_TYPE
          then Inl (NetworkError
                 (NE_message (''Unexpected response Content-Type: '' @ response_ct)))
          else Inr ())"

definition send :: "environment \<Rightarrow> request \<Rightarrow> world \<Rightarrow> response option \<times> world" where
  "send env rq w =
     (case env w rq of
        (d, r) \<Rightarrow> (r, \<lparr>clock = clock w + int d, trace = trace w @ [(clock w, rq)]\<rparr>))"

text \<open>\<^verbatim>\<open>_get\<close> and \<^verbatim>\<open>_post\<close>; \<open>hdrs\<close> is the \<^verbatim>\<open>headers\<close> keyword argument.\<close>

definition get ::
  "deps \<Rightarrow> environment \<Rightarrow> uri option \<Rightarrow> string option \<Rightarrow> (string \<times> string) list \<Rightarrow>
   world \<Rightarrow> (error + response) \<times> world" where
  "get dp env u content_type hdrs w =
     (case send env \<lparr>meth = GET, req_uri = u, payload = None, req_headers = hdrs\<rparr> w of
        (None, w') \<Rightarrow> (Inl (NetworkError NE_request_exception), w')
      | (Some r, w') \<Rightarrow>
          (case check_response dp r content_type of
             Inl e \<Rightarrow> (Inl e, w')
           | Inr _ \<Rightarrow> (Inr r, w')))"

definition post ::
  "deps \<Rightarrow> environment \<Rightarrow> uri option \<Rightarrow> jws \<Rightarrow> string option \<Rightarrow> (string \<times> string) list \<Rightarrow>
   world \<Rightarrow> (error + response) \<times> world" where
  "post dp env u d content_type hdrs w =
     (case send env \<lparr>meth = POST, req_uri = u, payload = Some d, req_headers = hdrs\<rparr> w of
        (None, w') \<Rightarrow> (Inl (NetworkError NE_request_exception), w')
      | (Some r, w') \<Rightarrow>
          (case check_response dp r content_type of
             Inl e \<Rightarrow> (Inl e, w')
           | Inr _ \<Rightarrow> (Inr r, w')))"

section \<open>Registrations, authorizations and challenges\<close>

text \<open>
  \<^verbatim>\<open>_regr_from_response\<close>. The keyword arguments of the resource are evaluated in the
  order of the source: the body first, so a body that is no JSON (\<^verbatim>\<open>ValueError\<close>) or no
  registration (\<^verbatim>\<open>DeserializationError\<close>) is raised after the link lookups.
\<close>

definition regr_from_response ::
  "deps \<Rightarrow> response \<Rightarrow> uri option \<Rightarrow> uri option \<Rightarrow> error + registration_resource" where
  \<open>regr_from_response dp r u new_authz_uri =
     (case (if links r ''terms-of-service'' \<noteq> None
            then (case links r ''next'' of
                    None \<Rightarrow> Inl (KeyError ''next'')
                  | Some n \<Rightarrow> Inr (Some n))
            else Inr None) of
        Inl e \<Rightarrow> Inl e
      | Inr terms_of_service \<Rightarrow>
          (case (case new_authz_uri of
                   Some n \<Rightarrow> Inr n
                 | None \<Rightarrow>
                     (case links r ''next'' of
                        Some n \<Rightarrow> Inr n
                      | None \<Rightarrow> Inl (NetworkError (NE_message ''"next" link missing'')))) of
             Inl e \<Rightarrow> Inl e
           | Inr new_authz \<Rightarrow>
               (case resp_json r of
                  None \<Rightarrow> Inl ValueError
                | Some j \<Rightarrow>
                    (case Registration_from_json dp j of
                       None \<Rightarrow> Inl DeserializationError
                     | Some b \<Rightarrow>
                         Inr \<lparr>regr_body = b,
                              regr_uri = (case headers r ''location'' of
                                            Some l \<Rightarrow> Some l
                                          | None \<Rightarrow> u),
                              regr_new_authz_uri = new_authz,
                              regr_terms_of_service = terms_of_service\<rparr>))))\<close>

text \<open>
  \<open>debug\<close> is Python's \<^verbatim>\<open>__debug__\<close>: an \<^verbatim>\<open>assert\<close> statement raises
  \<^verbatim>\<open>AssertionError\<close> on a false condition when it is set (the default) and is compiled
  away under \<^verbatim>\<open>python -O\<close>.
\<close>

definition register ::
  "bool \<Rightarrow> deps \<Rightarrow> environment \<Rightarrow> network \<Rightarrow> string list \<Rightarrow> world \<Rightarrow>
   (error + registration_resource) \<times> world" where
  "register debug dp env net contact w =
     (case post dp env (Some (new_reg_uri net))
             (wrap_in_jws net (Registration_msg \<lparr>reg_key = None, reg_contact = contact\<rparr>))
             (Some JSON_CONTENT_TYPE) [] w of
        (Inl e, w') \<Rightarrow> (Inl e, w')
      | (Inr r, w') \<Rightarrow>
          if debug \<and> status_code r \<noteq> CREATED then (Inl AssertionError, w')
          else
            (case regr_from_response dp r None None of
               Inl e \<Rightarrow> (Inl e, w')
             | Inr regr \<Rightarrow>
                 if reg_key (regr_body regr) \<noteq> Some (public (key net))
                    \<or> reg_contact (regr_body regr) \<noteq> contact
                 then (Inl (UnexpectedUpdate (UU_regr regr)), w')
                 else (Inr regr, w')))"

definition update_registration ::
  "deps \<Rightarrow> environment \<Rightarrow> network \<Rightarrow> registration_resource \<Rightarrow> world \<Rightarrow>
   (error + registration_resource) \<times> world" where
  "update_registration dp env net regr w =
     (case post dp env (regr_uri regr) (wrap_in_jws net (Registration_msg (regr_body regr)))
             (Some JSON_CONTENT_TYPE) [] w of
        (Inl e, w') \<Rightarrow> (Inl e, w')
      | (Inr r, w') \<Rightarrow>
          (case regr_from_response dp r (regr_uri regr) (Some (regr_new_authz_uri regr)) of
             Inl e \<Rightarrow> (Inl e, w')
           | Inr updated_regr \<Rightarrow> (Inr updated_regr, w')))"

definition authzr_from_response ::
  "deps \<Rightarrow> network \<Rightarrow> response \<Rightarrow> acme_identifier \<Rightarrow> uri option \<Rightarrow> uri option \<Rightarrow>
   error + authorization_resource" where
  \<open>authzr_from_response dp net r ident u new_cert_uri =
     (case (case new_cert_uri of
              Some n \<Rightarrow> Inr n
            | None \<Rightarrow>
                (case links r ''next'' of
                   Some n \<Rightarrow> Inr n
                 | None \<Rightarrow> Inl (NetworkError (NE_message ''"next" link missing'')))) of
        Inl e \<Rightarrow> Inl e
      | Inr new_cert \<Rightarrow>
          (case resp_json r of
             None \<Rightarrow> Inl ValueError
           | Some j \<Rightarrow>
               (case Authorization_from_json dp j of
                  None \<Rightarrow> Inl DeserializationError
                | Some b \<Rightarrow>
                    (let authzr = \<lparr>authzr_body = b,
                                   authzr_uri = (case headers r ''location'' of
                                                   Some l \<Rightarrow> Some l
                                                 | None \<Rightarrow> u),
                                   authzr_new_cert_uri = new_cert\<rparr>
                     in if authz_key b \<noteq> Some (public (key net)) \<or> authz_identifier b \<noteq> ident
                        then Inl (UnexpectedUpdate (UU_authzr authzr))
                        else Inr authzr))))\<close>

definition request_challenges ::
  "bool \<Rightarrow> deps \<Rightarrow> environment \<Rightarrow> network \<Rightarrow> acme_identifier \<Rightarrow> registration_resource \<Rightarrow>
   world \<Rightarrow> (error + authorization_resource) \<times> world" where
  "request_challenges debug dp env net ident regr w =
     (case post dp env (Some (regr_new_authz_uri regr))
             (wrap_in_jws net (Authorization_msg ident)) (Some JSON_CONTENT_TYPE) [] w of
        (Inl e, w') \<Rightarrow> (Inl e, w')
      | (Inr r, w') \<Rightarrow>
          if debug \<and> status_code r \<noteq> CREATED then (Inl AssertionError, w')
          else (authzr_from_response dp net r ident None None, w'))"

definition answer_challenge ::
  "deps \<Rightarrow> environment \<Rightarrow> network \<Rightarrow> challenge_resource \<Rightarrow> string \<Rightarrow> world \<Rightarrow>
   (error + challenge_resource) \<times> world" where
  "answer_challenge dp env net challr resp w =
     (case post dp env (challr_uri challr) (wrap_in_jws net (ChallengeResponse_msg resp))
             (Some JSON_CONTENT_TYPE) [] w of
        (Inl e, w') \<Rightarrow> (Inl e, w')
      | (Inr r, w') \<Rightarrow>
          (case headers r ''location'' of
             None \<Rightarrow> (Inl (KeyError ''location''), w')
           | Some l \<Rightarrow>
               if Some l \<noteq> challr_uri challr
               then (Inl (UnexpectedUpdate (UU_location l)), w')
               else
                 (case resp_json r of
                    None \<Rightarrow> (Inl ValueError, w')
                  | Some j \<Rightarrow>
                      (case Challenge_from_json dp j of
                         None \<Rightarrow> (Inl DeserializationError, w')
                       | Some b \<Rightarrow> (Inr (challr\<lparr>challr_body := b\<rparr>), w')))))"

section \<open>Polling and issuance\<close>

text \<open>
  Python's \<^verbatim>\<open>int\<close> on a header string (surrounding white space, an optional sign, decimal
  digits; \<open>None\<close> is \<^verbatim>\<open>ValueError\<close>) and \<^verbatim>\<open>str\<close> on an integer.
\<close>

fun position :: "char \<Rightarrow> string \<Rightarrow> nat option" where
  "position c [] = None"
| "position c (d # ds) = (if c = d then Some 0 else map_option Suc (position c ds))"

definition digit_of :: "char \<Rightarrow> nat option" where
  "digit_of c = position c ''0123456789''"

fun digits_value :: "nat \<Rightarrow> string \<Rightarrow> nat option" where
  "digits_value acc [] = Some acc"
| "digits_value acc (c # cs) =
     (case digit_of c of
        None \<Rightarrow> None
      | Some d \<Rightarrow> digits_value (10 * acc + d) cs)"

definition is_space :: "char \<Rightarrow> bool" where
  "is_space c \<longleftrightarrow> c \<in> set [CHR '' '', CHR 0x09, CHR 0x0A, CHR 0x0B, CHR 0x0C, CHR 0x0D]"

definition strip :: "string \<Rightarrow> string" where
  "strip s = rev (dropWhile is_space (rev (dropWhile is_space s)))"

definition py_int :: "string \<Rightarrow> int option" where
  "py_int s =
     (case strip s of
        [] \<Rightarrow> None
      | c # cs \<Rightarrow>
          if c = CHR ''-'' then
            (if cs = [] then None else map_option (\<lambda>n. - int n) (digits_value 0 cs))
          else if c = CHR ''+'' then
            (if cs = [] then None else map_option int (digits_value 0 cs))
          else map_option int (digits_value 0 (c # cs)))"

definition digit_char :: "nat \<Rightarrow> char" where
  "digit_char d = ''0123456789'' ! d"

fun nat_digits :: "nat \<Rightarrow> string" where
  "nat_digits n =
     (if n < 10 then [digit_char n] else nat_digits (n div 10) @ [digit_char (n mod 10)])"

definition str :: "int \<Rightarrow> string" where
  "str i = (if i < 0 then CHR ''-'' # nat_digits (nat (- i)) else nat_digits (nat i))"

text \<open>
  The range of \<^verbatim>\<open>datetime\<close> (years 1 to 9999) and of \<^verbatim>\<open>timedelta\<close> (at most 999999999
  days either way); \<^verbatim>\<open>timedelta(seconds=...)\<close> and the addition of a \<^verbatim>\<open>timedelta\<close> to a
  \<^verbatim>\<open>datetime\<close> raise \<^verbatim>\<open>OverflowError\<close> outside of it.
\<close>

definition DATETIME_MIN :: int where
  "DATETIME_MIN = - 62135596800000000"

definition DATETIME_MAX :: int where
  "DATETIME_MAX = 253402300799999999"

definition TIMEDELTA_MAX_DAYS :: int where
  "TIMEDELTA_MAX_DAYS = 999999999"

text \<open>
  \<^verbatim>\<open>_retry_after\<close>: the time of the next poll, read off the clock of the world it is
  computed in. The result is \<open>None\<close> where \<^verbatim>\<open>werkzeug.parse_date\<close> returns \<^verbatim>\<open>None\<close>.
\<close>

definition retry_after :: "deps \<Rightarrow> response \<Rightarrow> int \<Rightarrow> world \<Rightarrow> error + int option" where
  "retry_after dp r mintime w =
     (let ra = (case headers r ''Retry-After'' of Some s \<Rightarrow> s | None \<Rightarrow> str mintime)
      in case py_int ra of
           None \<Rightarrow> Inr (parse_date dp ra)
         | Some seconds \<Rightarrow>
             if seconds div 86400 > TIMEDELTA_MAX_DAYS
                \<or> seconds div 86400 < - TIMEDELTA_MAX_DAYS
                \<or> clock w + seconds * 1000000 > DATETIME_MAX
                \<or> clock w + seconds * 1000000 < DATETIME_MIN
             then Inl OverflowError
             else Inr (Some (clock w + seconds * 1000000)))"

definition poll ::
  "deps \<Rightarrow> environment \<Rightarrow> network \<Rightarrow> authorization_resource \<Rightarrow> world \<Rightarrow>
   (error + authorization_resource \<times> response) \<times> world" where
  "poll dp env net authzr w =
     (case get dp env (authzr_uri authzr) (Some JSON_CONTENT_TYPE) [] w of
        (Inl e, w') \<Rightarrow> (Inl e, w')
      | (Inr r, w') \<Rightarrow>
          (case authzr_from_response dp net r (authz_identifier (authzr_body authzr))
                  (authzr_uri authzr) (Some (authzr_new_cert_uri authzr)) of
             Inl e \<Rightarrow> (Inl e, w')
           | Inr updated_authzr \<Rightarrow> (Inr (updated_authzr, r), w')))"

text \<open>
  \<^verbatim>\<open>request_issuance\<close>. \<^verbatim>\<open>authzrs[0]\<close> raises \<^verbatim>\<open>IndexError\<close> on the empty list. The
  resource is built without a \<^verbatim>\<open>uri\<close>.
\<close>

definition request_issuance ::
  "deps \<Rightarrow> environment \<Rightarrow> network \<Rightarrow> string \<Rightarrow> authorization_resource list \<Rightarrow> world \<Rightarrow>
   (error + certificate_resource) \<times> world" where
  "request_issuance dp env net csr authzrs w =
     (case authzrs of
        [] \<Rightarrow> (Inl IndexError, w)
      | a # _ \<Rightarrow>
          (case post dp env (Some (authzr_new_cert_uri a))
                  (wrap_in_jws net (CertificateRequest_msg csr (map authzr_uri authzrs)))
                  (Some DER_CONTENT_TYPE) [(''Accept'', DER_CONTENT_TYPE)] w of
             (Inl e, w') \<Rightarrow> (Inl e, w')
           | (Inr r, w') \<Rightarrow>
               (case load_cert_der_string dp (resp_text r) of
                  None \<Rightarrow> (Inl X509Error, w')
                | Some c \<Rightarrow>
                    (case links r ''up'' of
                       None \<Rightarrow> (Inl (KeyError ''up''), w')
                     | Some up \<Rightarrow>
                         (Inr \<lparr>certr_body = c, certr_uri = None, certr_cert_chain_uri = up,
                               certr_authzrs = authzrs\<rparr>, w')))))"

text \<open>
  The priority queue of \<^verbatim>\<open>heapq\<close>, as the list of its entries. The time of an entry is
  what \<^verbatim>\<open>_retry_after\<close> returned, so it may be \<^verbatim>\<open>None\<close>. \<open>heappop\<close> removes an entry
  with the least time (\<open>None\<close> on the empty queue). \<open>heappush\<close> adds an entry; on a queue
  that is not empty it compares the new entry with entries of the queue, and comparing
  \<^verbatim>\<open>None\<close> with a time raises \<^verbatim>\<open>TypeError\<close>; on the empty queue it compares nothing.
  Entries with the same time are ordered in the source by comparing the resource objects,
  which no module at hand defines; \<open>heappop\<close> takes the first of them. A queue that holds
  \<^verbatim>\<open>None\<close> beside another entry does not arise, since the push onto it raises.
\<close>

fun earlier :: "int option \<Rightarrow> int option \<Rightarrow> bool" where
  "earlier (Some s) (Some t) = (s < t)"
| "earlier _ _ = False"

fun least :: "int option \<times> 'a \<Rightarrow> (int option \<times> 'a) list \<Rightarrow> int option \<times> 'a" where
  "least e [] = e"
| "least e (x # xs) = (if earlier (fst x) (fst e) then least x xs else least e xs)"

definition heappop ::
  "(int option \<times> 'a) list \<Rightarrow> ((int option \<times> 'a) \<times> (int option \<times> 'a) list) option" where
  "heappop h =
     (case h of
        [] \<Rightarrow> None
      | x # xs \<Rightarrow> Some (least x xs, remove1 (least x xs) (x # xs)))"

definition heappush ::
  "(int option \<times> 'a) list \<Rightarrow> int option \<times> 'a \<Rightarrow> error + (int option \<times> 'a) list" where
  "heappush h e =
     (if list_ex (\<lambda>x. (fst x = None) \<noteq> (fst e = None)) h then Inl TypeError
      else Inr (h @ [e]))"

text \<open>\<^verbatim>\<open>time.sleep\<close> of a number of seconds.\<close>

definition sleep :: "int \<Rightarrow> world \<Rightarrow> world" where
  "sleep seconds w = w\<lparr>clock := clock w + seconds * 1000000\<rparr>"

text \<open>
  The comparison \<^verbatim>\<open>updated_authzr.uri == authzr\<close> of the source: its left side is a
  string (or \<^verbatim>\<open>None\<close>), its right side an authorization resource, and Python's \<^verbatim>\<open>==\<close>
  between the two is false.
\<close>

definition uri_eq_resource :: "uri option \<Rightarrow> authorization_resource \<Rightarrow> bool" where
  "uri_eq_resource u a = False"

type_synonym waiting = "(int option \<times> authorization_resource) list"

type_synonym updated = "authorization_resource \<rightharpoonup> authorization_resource"

text \<open>
  One turn of the \<^verbatim>\<open>while waiting\<close> loop. \<^verbatim>\<open>when > now\<close> raises \<^verbatim>\<open>TypeError\<close> for a
  time of \<^verbatim>\<open>None\<close>. \<^verbatim>\<open>(when - now).seconds\<close> is the seconds field of the time difference:
  whole seconds, less whole days.
\<close>

definition loop_body ::
  "bool \<Rightarrow> deps \<Rightarrow> environment \<Rightarrow> network \<Rightarrow> int \<Rightarrow> waiting \<Rightarrow> updated \<Rightarrow> world \<Rightarrow>
   (error + waiting \<times> updated) \<times> world" where
  "loop_body debug dp env net mintime waiting updated w =
     (case heappop waiting of
        None \<Rightarrow> (Inl IndexError, w)
      | Some ((None, authzr), rest) \<Rightarrow> (Inl TypeError, w)
      | Some ((Some whn, authzr), rest) \<Rightarrow>
          (let now = clock w;
               w1 = (if whn > now then sleep (((whn - now) div 1000000) mod 86400) w else w)
           in case poll dp env net authzr w1 of
                (Inl e, w2) \<Rightarrow> (Inl e, w2)
              | (Inr (updated_authzr, r), w2) \<Rightarrow>
                  (let updated' = updated(authzr \<mapsto> updated_authzr)
                   in if debug \<and> \<not> uri_eq_resource (authzr_uri updated_authzr) authzr
                      then (Inl AssertionError, w2)
                      else if authz_status (authzr_body updated_authzr) \<noteq> STATUS_VALID
                      then (case retry_after dp r mintime w2 of
                              Inl e \<Rightarrow> (Inl e, w2)
                            | Inr t \<Rightarrow>
                                (case heappush rest (t, authzr) of
                                   Inl e \<Rightarrow> (Inl e, w2)
                                 | Inr waiting' \<Rightarrow> (Inr (waiting', updated'), w2)))
                      else (Inr (rest, updated'), w2))))"

text \<open>The world at the moment a turn of the loop polls: after the sleep, if there is one.\<close>

definition slept :: "int \<Rightarrow> world \<Rightarrow> world" where
  "slept whn w =
     (if whn > clock w then sleep (((whn - clock w) div 1000000) mod 86400) w else w)"

text \<open>
  The loop, with fuel: at most \<open>fuel\<close> turns; \<open>None\<close> when the queue is not empty after
  them. The source has no bound on the number of turns.
\<close>

fun poll_loop ::
  "nat \<Rightarrow> bool \<Rightarrow> deps \<Rightarrow> environment \<Rightarrow> network \<Rightarrow> int \<Rightarrow> waiting \<Rightarrow> updated \<Rightarrow> world \<Rightarrow>
   ((error + updated) \<times> world) option" where
  "poll_loop 0 debug dp env net mintime waiting updated w =
     (if waiting = [] then Some (Inr updated, w) else None)"
| "poll_loop (Suc n) debug dp env net mintime waiting updated w =
     (if waiting = [] then Some (Inr updated, w)
      else
        (case loop_body debug dp env net mintime waiting updated w of
           (Inl e, w') \<Rightarrow> Some (Inl e, w')
         | (Inr (waiting', updated'), w') \<Rightarrow>
             poll_loop n debug dp env net mintime waiting' updated' w'))"

definition poll_and_request_issuance ::
  "nat \<Rightarrow> bool \<Rightarrow> deps \<Rightarrow> environment \<Rightarrow> network \<Rightarrow> string \<Rightarrow> authorization_resource list \<Rightarrow>
   int \<Rightarrow> world \<Rightarrow>
   ((error + certificate_resource \<times> authorization_resource list) \<times> world) option" where
  "poll_and_request_issuance fuel debug dp env net csr authzrs mintime w =
     (let waiting = map (\<lambda>authzr. (Some (clock w), authzr)) authzrs;
          updated = map_of (map (\<lambda>authzr. (authzr, authzr)) authzrs)
      in case poll_loop fuel debug dp env net mintime waiting updated w of
           None \<Rightarrow> None
         | Some (Inl e, w') \<Rightarrow> Some (Inl e, w')
         | Some (Inr updated', w') \<Rightarrow>
             (case request_issuance dp env net csr authzrs w' of
                (Inl e, w'') \<Rightarrow> Some (Inl e, w'')
              | (Inr certr, w'') \<Rightarrow>
                  (case those (map updated' authzrs) of
                     None \<Rightarrow> Some (Inl (KeyError ''authzr''), w'')
                   | Some finals \<Rightarrow> Some (Inr (certr, finals), w''))))"

section \<open>Certificates\<close>

definition get_cert ::
  "deps \<Rightarrow> environment \<Rightarrow> uri option \<Rightarrow> world \<Rightarrow> (error + response \<times> x509) \<times> world" where
  "get_cert dp env u w =
     (case get dp env u (Some DER_CONTENT_TYPE) [(''Accept'', DER_CONTENT_TYPE)] w of
        (Inl e, w') \<Rightarrow> (Inl e, w')
      | (Inr r, w') \<Rightarrow>
          (case load_cert_der_string dp (resp_text r) of
             None \<Rightarrow> (Inl X509Error, w')
           | Some c \<Rightarrow> (Inr (r, c), w')))"

definition check_cert ::
  "deps \<Rightarrow> environment \<Rightarrow> certificate_resource \<Rightarrow> world \<Rightarrow>
   (error + certificate_resource) \<times> world" where
  "check_cert dp env certr w =
     (case get_cert dp env (certr_uri certr) w of
        (Inl e, w') \<Rightarrow> (Inl e, w')
      | (Inr (r, cert), w') \<Rightarrow>
          (case headers r ''location'' of
             None \<Rightarrow> (Inl (KeyError ''location''), w')
           | Some l \<Rightarrow>
               if \<not> (Some l \<noteq> certr_uri certr)
               then (Inl (UnexpectedUpdate (UU_text (resp_text r))), w')
               else (Inr (certr\<lparr>certr_body := cert\<rparr>), w')))"

definition refresh ::
  "deps \<Rightarrow> environment \<Rightarrow> certificate_resource \<Rightarrow> world \<Rightarrow>
   (error + certificate_resource) \<times> world" where
  "refresh dp env certr w = check_cert dp env certr w"

definition fetch_chain ::
  "deps \<Rightarrow> environment \<Rightarrow> certificate_resource \<Rightarrow> world \<Rightarrow>
   (error + response \<times> x509) \<times> world" where
  "fetch_chain dp env certr w = get_cert dp env (Some (certr_cert_chain_uri certr)) w"

definition revoke ::
  "deps \<Rightarrow> environment \<Rightarrow> network \<Rightarrow> certificate_resource \<Rightarrow> string \<Rightarrow> world \<Rightarrow>
   (error + unit) \<times> world" where
  "revoke dp env net certr whn w =
     (case post dp env (certr_uri certr)
             (wrap_in_jws net (Revocation_msg whn (map authzr_uri (certr_authzrs certr))))
             (Some JSON_CONTENT_TYPE) [] w of
        (Inl e, w') \<Rightarrow> (Inl e, w')
      | (Inr r, w') \<Rightarrow>
          if status_code r \<noteq> OK
          then (Inl (NetworkError
                  (NE_message ''Successful revocation must return HTTP OK status'')), w')
          else (Inr (), w'))"

section \<open>Example inputs\<close>

text \<open>
  Concrete deserialisers, a client and servers, for the theorems that evaluate the
  functions above. A scripted environment answers the \<open>n\<close>-th request with the \<open>n\<close>-th
  reply of its script, and fails the connection after the script's end.
\<close>

fun example_registration :: "json \<Rightarrow> registration option" where
  "example_registration (JList [JInt k, JList cs]) =
     Some \<lparr>reg_key = Some (JWK (nat k) False),
           reg_contact = map (\<lambda>c. case c of JString t \<Rightarrow> t | _ \<Rightarrow> []) cs\<rparr>"
| "example_registration _ = None"

fun example_authorization :: "json \<Rightarrow> authorization option" where
  "example_authorization (JList [JString d, JInt k, JString st]) =
     Some \<lparr>authz_identifier = Identifier ''dns'' d, authz_key = Some (JWK (nat k) False),
           authz_status = Status st, authz_challenges = []\<rparr>"
| "example_authorization _ = None"

fun example_challenge :: "json \<Rightarrow> challenge option" where
  "example_challenge (JList [JString t, JString st]) = Some (Challenge t st)"
| "example_challenge _ = None"

fun example_error :: "json \<Rightarrow> acme_error option" where
  "example_error (JDict [(t, JString ty), (d, JString detail)]) = Some (Error ty detail)"
| "example_error _ = None"

definition example_deps :: deps where
  "example_deps =
     \<lparr>Registration_from_json = example_registration,
      Authorization_from_json = example_authorization,
      Challenge_from_json = example_challenge,
      Error_from_json = example_error,
      load_cert_der_string = (\<lambda>s. if s = [] then None else Some (X509 s)),
      parse_date = (\<lambda>s. None)\<rparr>"

definition example_net :: network where
  "example_net = \<lparr>new_reg_uri = ''https://ca/new-reg'', key = JWK 7 True, alg = RS256\<rparr>"

definition scripted :: "(nat \<times> response option) list \<Rightarrow> environment" where
  "scripted script w rq =
     (if length (trace w) < length script then script ! length (trace w) else (0, None))"

definition world0 :: world where
  "world0 = \<lparr>clock = 0, trace = []\<rparr>"

definition json_response ::
  "int \<Rightarrow> (string \<times> string) list \<Rightarrow> (string \<times> uri) list \<Rightarrow> json \<Rightarrow> response" where
  "json_response code hs ls j =
     \<lparr>status_code = code, ok = (code < 400),
      headers = map_of ((''content-type'', JSON_CONTENT_TYPE) # hs),
      links = map_of ls, resp_json = Some j, resp_text = ''{}''\<rparr>"

definition der_response ::
  "int \<Rightarrow> (string \<times> string) list \<Rightarrow> (string \<times> uri) list \<Rightarrow> string \<Rightarrow> response" where
  "der_response code hs ls t =
     \<lparr>status_code = code, ok = (code < 400),
      headers = map_of ((''content-type'', DER_CONTENT_TYPE) # hs),
      links = map_of ls, resp_json = None, resp_text = t\<rparr>"

definition example_authzr :: authorization_resource where
  "example_authzr =
     \<lparr>authzr_body = \<lparr>authz_identifier = Identifier ''dns'' ''example.org'',
                      authz_key = Some (JWK 7 False), authz_status = STATUS_PENDING,
                      authz_challenges = []\<rparr>,
      authzr_uri = Some ''https://ca/authz/1'',
      authzr_new_cert_uri = ''https://ca/new-cert''\<rparr>"

definition authz_json :: "string \<Rightarrow> json" where
  "authz_json st = JList [JString ''example.org'', JInt 7, JString st]"

definition example_certr :: certificate_resource where
  "example_certr =
     \<lparr>certr_body = X509 ''old'', certr_uri = Some ''https://ca/cert/1'',
      certr_cert_chain_uri = ''https://ca/chain'', certr_authzrs = [example_authzr]\<rparr>"

definition example_challr :: challenge_resource where
  "example_challr =
     \<lparr>challr_body = Challenge ''dvsni'' ''pending'', challr_uri = Some ''https://ca/chall/1''\<rparr>"

text \<open>The JSON object \<^verbatim>\<open>{"a": 1}\<close>.\<close>

definition example_object :: json where
  "example_object = JDict [(''a'', JInt 1)]"

definition tos_response :: response where
  "tos_response =
     json_response 201 []
       [(''next'', ''https://ca/new-authz''), (''terms-of-service'', ''https://ca/terms'')]
       (JList [JInt 7, JList []])"

definition chall_env :: "string \<Rightarrow> environment" where
  "chall_env l =
     scripted
       [(0, Some (json_response 200 [(''location'', l)] []
                    (JList [JString ''dvsni'', JString ''valid''])))]"

definition revoke_env :: "int \<Rightarrow> environment" where
  "revoke_env code = scripted [(0, Some (json_response code [] [] JNull))]"

definition reg_response :: "int \<Rightarrow> response" where
  "reg_response k =
     json_response 201 [(''location'', ''https://ca/reg/1'')] [(''next'', ''https://ca/new-authz'')]
       (JList [JInt k, JList [JString ''mailto:a@example.org'']])"

definition register_env :: "int \<Rightarrow> environment" where
  "register_env k = scripted [(0, Some (reg_response k))]"

definition example_regr :: "nat \<Rightarrow> registration_resource" where
  "example_regr k =
     \<lparr>regr_body = \<lparr>reg_key = Some (JWK k False), reg_contact = [''mailto:a@example.org'']\<rparr>,
      regr_uri = Some ''https://ca/reg/1'', regr_new_authz_uri = ''https://ca/new-authz'',
      regr_terms_of_service = None\<rparr>"

definition cert_env :: "string \<Rightarrow> environment" where
  "cert_env l = scripted [(0, Some (der_response 200 [(''location'', l)] [] ''new''))]"

definition poll_response :: "string \<Rightarrow> (string \<times> string) list \<Rightarrow> response" where
  "poll_response st hs = json_response 200 hs [] (authz_json st)"

definition polled :: "string \<Rightarrow> authorization_resource" where
  "polled st =
     example_authzr\<lparr>authzr_body := (authzr_body example_authzr)\<lparr>authz_status := Status st\<rparr>\<rparr>"

definition cert_response :: response where
  "cert_response = der_response 201 [] [(''up'', ''https://ca/chain'')] ''cert''"

definition poll_script :: "string \<Rightarrow> string \<Rightarrow> (nat \<times> response option) list" where
  "poll_script st ra =
     [(0, Some (poll_response st [(''Retry-After'', ra)])),
      (0, Some (poll_response ''valid'' [])),
      (0, Some cert_response)]"

text \<open>The requests of a world's trace: sending time, verb and URI.\<close>

definition requests_of :: "world \<Rightarrow> (int \<times> http_verb \<times> uri option) list" where
  "requests_of w = map (\<lambda>e. (fst e, meth (snd e), req_uri (snd e))) (trace w)"

definition after_first_poll :: world where
  "after_first_poll =
     \<lparr>clock = 0,
      trace = [(0, \<lparr>meth = GET, req_uri = Some ''https://ca/authz/1'', payload = None,
                    req_headers = []\<rparr>)]\<rparr>"

definition valid_script :: "(nat \<times> response option) list" where
  "valid_script = [(0, Some (poll_response ''valid'' [])), (0, Some cert_response)]"

section \<open>Response checking\<close>

text \<open>
  What the check does for a response with a success status and an explicit expected content
  type: the test is on the two content types alone.
\<close>

lemma check_response_success:
  assumes "ok r" and "headers r ''content-type'' = Some response_ct"
  shows "check_response dp r (Some content_type) =
           (if response_ct \<noteq> content_type \<and> content_type \<noteq> JSON_CONTENT_TYPE
            then Inl (NetworkError
                   (NE_message (''Unexpected response Content-Type: '' @ response_ct)))
            else Inr ())"
  using assms by (simp add: check_response_def)

text \<open>
  Claim C5, as the source has it: for a response with a success status that is checked
  against an explicit expected content type other than the generic JSON type,
  \<^verbatim>\<open>NetworkError\<close> (the spec's TransportFault) is raised if and only if the returned
  content type differs from the expected one, whether or not the body parses as JSON; when
  the expected type is the generic JSON type, a response whose body parses as JSON
  (\<^verbatim>\<open>jobj is not None\<close>) passes whatever its content type.
\<close>

theorem check_response_content_type:
  assumes "ok r" and "headers r ''content-type'' = Some response_ct"
  shows "(content_type \<noteq> JSON_CONTENT_TYPE \<longrightarrow>
            (is_TransportFault (check_response dp r (Some content_type)) \<longleftrightarrow>
               response_ct \<noteq> content_type)
            \<and> (response_ct = content_type \<longrightarrow>
                 check_response dp r (Some content_type) = Inr ()))
         \<and> (content_type = JSON_CONTENT_TYPE \<and> jobj r \<noteq> None \<longrightarrow>
              check_response dp r (Some content_type) = Inr ())"
  by (simp add: check_response_success [OF assms])

theorem check_response_content_type_witness:
  "is_TransportFault
     (check_response example_deps (json_response 200 [] [] example_object) (Some DER_CONTENT_TYPE))
   \<and> check_response example_deps (der_response 200 [] [] ''x'') (Some DER_CONTENT_TYPE)
     = Inr ()
   \<and> check_response example_deps
       ((json_response 200 [] [] example_object)\<lparr>headers := [''content-type'' \<mapsto> ''text/html'']\<rparr>)
       (Some JSON_CONTENT_TYPE) = Inr ()"
  using check_response_content_type
      [of "json_response 200 [] [] example_object" JSON_CONTENT_TYPE DER_CONTENT_TYPE example_deps]
    check_response_content_type
      [of "der_response 200 [] [] ''x''" DER_CONTENT_TYPE DER_CONTENT_TYPE example_deps]
    check_response_content_type
      [of "(json_response 200 [] [] example_object)\<lparr>headers := [''content-type'' \<mapsto> ''text/html'']\<rparr>"
          "''text/html''" JSON_CONTENT_TYPE example_deps]
  by (simp add: jobj_def example_object_def json_response_def der_response_def JSON_CONTENT_TYPE_def
      DER_CONTENT_TYPE_def)

text \<open>
  Claim C5 as stated fails: a response declared as JSON whose body \<^verbatim>\<open>{"a": 1}\<close> parses
  as JSON, checked against the DER content type, raises \<^verbatim>\<open>NetworkError\<close>, although its
  body parsed.
\<close>

theorem check_response_parsed_body_not_tolerated:
  "ok (json_response 200 [] [] example_object)
   \<and> headers (json_response 200 [] [] example_object) ''content-type'' = Some JSON_CONTENT_TYPE
   \<and> \<not> (is_TransportFault
           (check_response example_deps (json_response 200 [] [] example_object) (Some DER_CONTENT_TYPE))
         \<longleftrightarrow> JSON_CONTENT_TYPE \<noteq> DER_CONTENT_TYPE
             \<and> jobj (json_response 200 [] [] example_object) = None)"
  by (simp add: check_response_def jobj_def example_object_def json_response_def JSON_CONTENT_TYPE_def
      DER_CONTENT_TYPE_def)

section \<open>Reconciling responses into resources\<close>

text \<open>
  Claim C6, as the source has it: with no next URI supplied by the caller and no
  \<^verbatim>\<open>next\<close> link in the response, \<^verbatim>\<open>_authzr_from_response\<close> raises
  \<^verbatim>\<open>NetworkError('"next" link missing')\<close>, the spec's TransportFault, and so does
  \<^verbatim>\<open>_regr_from_response\<close> for a response without a \<^verbatim>\<open>terms-of-service\<close> link.
\<close>

theorem next_link_missing_raises_NetworkError:
  assumes "links r ''next'' = None"
  shows \<open>authzr_from_response dp net r ident u None =
           Inl (NetworkError (NE_message ''"next" link missing''))
         \<and> (links r ''terms-of-service'' = None \<longrightarrow>
              regr_from_response dp r u None =
                Inl (NetworkError (NE_message ''"next" link missing'')))\<close>
  using assms by (simp add: authzr_from_response_def regr_from_response_def)

theorem next_link_missing_raises_NetworkError_witness:
  \<open>authzr_from_response example_deps example_net (json_response 201 [] [] JNull)
       (Identifier ''dns'' ''example.org'') None None =
     Inl (NetworkError (NE_message ''"next" link missing''))
   \<and> regr_from_response example_deps (json_response 201 [] [] JNull) None None =
     Inl (NetworkError (NE_message ''"next" link missing''))\<close>
  using next_link_missing_raises_NetworkError
    [of "json_response 201 [] [] JNull" example_deps example_net
        "Identifier ''dns'' ''example.org''" None]
  by (simp add: json_response_def)

text \<open>
  Claim C6 as stated fails: the fault raised for the missing link is no
  \<^verbatim>\<open>messages2.Error\<close> (the spec's ProtocolError).
\<close>

theorem next_link_missing_not_ProtocolError:
  \<open>links (json_response 201 [] [] JNull) ''next'' = None
   \<and> \<not> is_ProtocolError
         (regr_from_response example_deps (json_response 201 [] [] JNull) None None)
   \<and> \<not> is_ProtocolError
         (authzr_from_response example_deps example_net (json_response 201 [] [] JNull)
            (Identifier ''dns'' ''example.org'') None None)\<close>
  by (simp add: authzr_from_response_def regr_from_response_def json_response_def)

text \<open>
  Claim C10: for a response with a \<^verbatim>\<open>terms-of-service\<close> link, \<^verbatim>\<open>_regr_from_response\<close>
  fails with \<^verbatim>\<open>KeyError\<close> when there is no \<^verbatim>\<open>next\<close> link, and otherwise sets the
  terms-of-service field of the resource it returns to the URL of the \<^verbatim>\<open>next\<close> link;
  without a \<^verbatim>\<open>terms-of-service\<close> link the field is \<^verbatim>\<open>None\<close>. With both links and a
  body that deserialises, a resource is returned.
\<close>

theorem regr_terms_of_service_is_next_link:
  "(links r ''terms-of-service'' \<noteq> None \<and> links r ''next'' = None \<longrightarrow>
      regr_from_response dp r u n = Inl (KeyError ''next''))
   \<and> (regr_from_response dp r u n = Inr regr \<longrightarrow>
        regr_terms_of_service regr =
          (if links r ''terms-of-service'' \<noteq> None then links r ''next'' else None))
   \<and> (links r ''terms-of-service'' \<noteq> None \<and> links r ''next'' = Some nxt
        \<and> resp_json r = Some j \<and> Registration_from_json dp j = Some b \<longrightarrow>
        (\<exists>regr'. regr_from_response dp r u n = Inr regr'
           \<and> regr_terms_of_service regr' = Some nxt))"
  by (auto simp add: regr_from_response_def split: option.splits sum.splits if_splits)

theorem regr_terms_of_service_is_next_link_witness:
  "map_sum id regr_terms_of_service (regr_from_response example_deps tos_response None None)
     = Inr (Some ''https://ca/new-authz'')
   \<and> regr_from_response example_deps
        (json_response 201 [] [(''terms-of-service'', ''https://ca/terms'')]
           (JList [JInt 7, JList []]))
        None (Some ''https://ca/new-authz'') = Inl (KeyError ''next'')
   \<and> map_sum id regr_terms_of_service
        (regr_from_response example_deps
           (json_response 201 [] [(''next'', ''https://ca/new-authz'')]
              (JList [JInt 7, JList []]))
           None None) = Inr None"
  using regr_terms_of_service_is_next_link
    [of tos_response example_deps None None _ "''https://ca/new-authz''"
        "JList [JInt 7, JList []]" "\<lparr>reg_key = Some (JWK 7 False), reg_contact = []\<rparr>"]
    regr_terms_of_service_is_next_link
    [of "json_response 201 [] [(''terms-of-service'', ''https://ca/terms'')]
           (JList [JInt 7, JList []])"
        example_deps None "Some ''https://ca/new-authz''"]
    regr_terms_of_service_is_next_link
    [of "json_response 201 [] [(''next'', ''https://ca/new-authz'')]
           (JList [JInt 7, JList []])"
        example_deps None None
        "\<lparr>regr_body = \<lparr>reg_key = Some (JWK 7 False), reg_contact = []\<rparr>, regr_uri = None,
          regr_new_authz_uri = ''https://ca/new-authz'', regr_terms_of_service = None\<rparr>"]
  by (simp add: tos_response_def json_response_def example_deps_def regr_from_response_def)

section \<open>Evaluating the example inputs\<close>

lemma send_scripted_first:
  "send (scripted ((d, r) # rest)) rq world0 = (r, \<lparr>clock = int d, trace = [(0, rq)]\<rparr>)"
  by (simp add: send_def scripted_def world0_def)

lemma post_scripted_first:
  "post dp (scripted ((d, Some r) # rest)) u m ct hs world0 =
     (case check_response dp r ct of
        Inl e \<Rightarrow>
          (Inl e, \<lparr>clock = int d,
                   trace = [(0, \<lparr>meth = POST, req_uri = u, payload = Some m,
                                 req_headers = hs\<rparr>)]\<rparr>)
      | Inr _ \<Rightarrow>
          (Inr r, \<lparr>clock = int d,
                   trace = [(0, \<lparr>meth = POST, req_uri = u, payload = Some m,
                                 req_headers = hs\<rparr>)]\<rparr>))"
  by (simp add: post_def send_scripted_first)

lemma get_scripted_first:
  "get dp (scripted ((d, Some r) # rest)) u ct hs world0 =
     (case check_response dp r ct of
        Inl e \<Rightarrow>
          (Inl e, \<lparr>clock = int d,
                   trace = [(0, \<lparr>meth = GET, req_uri = u, payload = None,
                                 req_headers = hs\<rparr>)]\<rparr>)
      | Inr _ \<Rightarrow>
          (Inr r, \<lparr>clock = int d,
                   trace = [(0, \<lparr>meth = GET, req_uri = u, payload = None,
                                 req_headers = hs\<rparr>)]\<rparr>))"
  by (simp add: get_def send_scripted_first)

lemma check_json_response:
  "code < 400 \<Longrightarrow>
   check_response dp (json_response code hs ls j) (Some JSON_CONTENT_TYPE) = Inr ()"
  by (simp add: check_response_def json_response_def)

lemma check_der_response:
  "code < 400 \<Longrightarrow>
   check_response dp (der_response code hs ls t) (Some DER_CONTENT_TYPE) = Inr ()"
  by (simp add: check_response_def der_response_def)

lemma headers_json_response_location:
  "headers (json_response code [(''location'', l)] ls j) ''location'' = Some l"
  by (simp add: json_response_def)

lemma resp_json_json_response: "resp_json (json_response code hs ls j) = Some j"
  by (simp add: json_response_def)

lemma status_code_json_response: "status_code (json_response code hs ls j) = code"
  by (simp add: json_response_def)

section \<open>Answering a challenge\<close>

lemma post_chall_env:
  "post example_deps (chall_env l) (challr_uri example_challr)
     (wrap_in_jws example_net (ChallengeResponse_msg ''r'')) (Some JSON_CONTENT_TYPE) []
     world0 =
   (Inr (json_response 200 [(''location'', l)] []
           (JList [JString ''dvsni'', JString ''valid''])),
    \<lparr>clock = 0,
     trace = [(0, \<lparr>meth = POST, req_uri = challr_uri example_challr,
                   payload = Some (wrap_in_jws example_net (ChallengeResponse_msg ''r'')),
                   req_headers = []\<rparr>)]\<rparr>)"
  by (simp add: chall_env_def post_scripted_first check_json_response)

text \<open>
  Claim C7: when the POST of \<^verbatim>\<open>answer_challenge\<close> passes the response check and the
  response declares a location, a location other than the challenge resource's raises
  \<^verbatim>\<open>UnexpectedUpdate\<close> and no updated resource is produced; with the same location and a
  body that deserialises, the resource with the new body and the original location is
  returned; and whatever resource is returned has the original location.
\<close>

theorem answer_challenge_location_check:
  assumes "post dp env (challr_uri challr) (wrap_in_jws net (ChallengeResponse_msg resp))
             (Some JSON_CONTENT_TYPE) [] w = (Inr r, w')"
    and "headers r ''location'' = Some l"
  shows "(Some l \<noteq> challr_uri challr \<longrightarrow>
            answer_challenge dp env net challr resp w =
              (Inl (UnexpectedUpdate (UU_location l)), w'))
         \<and> (Some l = challr_uri challr \<and> resp_json r = Some j
              \<and> Challenge_from_json dp j = Some b \<longrightarrow>
            answer_challenge dp env net challr resp w =
              (Inr \<lparr>challr_body = b, challr_uri = challr_uri challr\<rparr>, w'))
         \<and> (\<forall>c. fst (answer_challenge dp env net challr resp w) = Inr c \<longrightarrow>
              Some l = challr_uri challr \<and> challr_uri c = challr_uri challr)"
proof -
  have eq: "answer_challenge dp env net challr resp w =
     (if Some l \<noteq> challr_uri challr
      then (Inl (UnexpectedUpdate (UU_location l)), w')
      else
        (case resp_json r of
           None \<Rightarrow> (Inl ValueError, w')
         | Some j \<Rightarrow>
             (case Challenge_from_json dp j of
                None \<Rightarrow> (Inl DeserializationError, w')
              | Some b \<Rightarrow> (Inr (challr\<lparr>challr_body := b\<rparr>), w'))))"
    unfolding answer_challenge_def using assms by simp
  show ?thesis
    unfolding eq by (cases challr) (simp split: option.split)
qed

theorem answer_challenge_location_check_witness:
  "fst (answer_challenge example_deps (chall_env ''https://ca/chall/2'') example_net
          example_challr ''r'' world0) =
     Inl (UnexpectedUpdate (UU_location ''https://ca/chall/2''))
   \<and> fst (answer_challenge example_deps (chall_env ''https://ca/chall/1'') example_net
          example_challr ''r'' world0) =
     Inr \<lparr>challr_body = Challenge ''dvsni'' ''valid'',
          challr_uri = Some ''https://ca/chall/1''\<rparr>"
proof -
  let ?j = "JList [JString ''dvsni'', JString ''valid'']"
  have u: "challr_uri example_challr = Some ''https://ca/chall/1''"
    by (simp add: example_challr_def)
  have d: "Challenge_from_json example_deps ?j = Some (Challenge ''dvsni'' ''valid'')"
    by (simp add: example_deps_def)
  have a: "Some ''https://ca/chall/2'' \<noteq> challr_uri example_challr"
    unfolding u by simp
  have b: "Some ''https://ca/chall/1'' = challr_uri example_challr
           \<and> resp_json (json_response 200 [(''location'', ''https://ca/chall/1'')] [] ?j)
             = Some ?j
           \<and> Challenge_from_json example_deps ?j = Some (Challenge ''dvsni'' ''valid'')"
    unfolding u d resp_json_json_response by simp
  note t1 = answer_challenge_location_check
    [OF post_chall_env headers_json_response_location,
      of "''https://ca/chall/2''", THEN conjunct1, rule_format, OF a]
  note t2 = answer_challenge_location_check
    [OF post_chall_env headers_json_response_location,
      of "''https://ca/chall/1''" ?j "Challenge ''dvsni'' ''valid''",
      THEN conjunct2, THEN conjunct1, rule_format, OF b]
  show ?thesis
    unfolding t1 t2 u by simp
qed

section \<open>Revocation\<close>

lemma post_revoke_env:
  "code < 400 \<Longrightarrow>
   post example_deps (revoke_env code) (certr_uri example_certr)
     (wrap_in_jws example_net
        (Revocation_msg ''now'' (map authzr_uri (certr_authzrs example_certr))))
     (Some JSON_CONTENT_TYPE) [] world0 =
   (Inr (json_response code [] [] JNull),
    \<lparr>clock = 0,
     trace = [(0, \<lparr>meth = POST, req_uri = certr_uri example_certr,
                   payload = Some (wrap_in_jws example_net
                     (Revocation_msg ''now'' (map authzr_uri (certr_authzrs example_certr)))),
                   req_headers = []\<rparr>)]\<rparr>)"
  by (simp add: revoke_env_def post_scripted_first check_json_response)

text \<open>
  Claim C8, as the source has it: when the POST of \<^verbatim>\<open>revoke\<close> passes the response check,
  status 200 yields no fault and every other status, also one of the 2xx class, raises
  \<^verbatim>\<open>NetworkError('Successful revocation must return HTTP OK status')\<close>, the spec's
  TransportFault.
\<close>

theorem revoke_requires_OK:
  assumes "post dp env (certr_uri certr)
             (wrap_in_jws net (Revocation_msg whn (map authzr_uri (certr_authzrs certr))))
             (Some JSON_CONTENT_TYPE) [] w = (Inr r, w')"
  shows "revoke dp env net certr whn w =
           (if status_code r = 200 then (Inr (), w')
            else (Inl (NetworkError
                    (NE_message ''Successful revocation must return HTTP OK status'')), w'))
         \<and> (is_TransportFault (fst (revoke dp env net certr whn w)) \<longleftrightarrow> status_code r \<noteq> 200)"
  using assms by (simp add: revoke_def OK_def)

theorem revoke_requires_OK_witness:
  "fst (revoke example_deps (revoke_env 200) example_net example_certr ''now'' world0) = Inr ()
   \<and> fst (revoke example_deps (revoke_env 202) example_net example_certr ''now'' world0) =
       Inl (NetworkError (NE_message ''Successful revocation must return HTTP OK status''))"
  using revoke_requires_OK [OF post_revoke_env, of 200]
    revoke_requires_OK [OF post_revoke_env, of 202]
  by (simp add: status_code_json_response)

text \<open>
  Claim C8 as stated fails: for status 202 the POST passes the response check and the fault
  raised is no \<^verbatim>\<open>messages2.Error\<close> (the spec's ProtocolError).
\<close>

theorem revoke_not_ProtocolError:
  "status_code (json_response 202 [] [] JNull) = 202
   \<and> fst (post example_deps (revoke_env 202) (certr_uri example_certr)
       (wrap_in_jws example_net
          (Revocation_msg ''now'' (map authzr_uri (certr_authzrs example_certr))))
       (Some JSON_CONTENT_TYPE) [] world0) = Inr (json_response 202 [] [] JNull)
   \<and> \<not> is_ProtocolError
         (fst (revoke example_deps (revoke_env 202) example_net example_certr ''now'' world0))"
  by (simp add: revoke_def post_revoke_env status_code_json_response OK_def)

section \<open>Registration\<close>

text \<open>
  Claim C2: a resource that \<^verbatim>\<open>register\<close> returns carries the public key of the client's
  account key and the submitted contact list; and once the POST has passed the response
  check, the status assertion holds (or assertions are off) and the response reconciles into
  a resource, \<^verbatim>\<open>register\<close> raises \<^verbatim>\<open>UnexpectedUpdate\<close> with that resource when either
  field differs and returns the resource when both agree.
\<close>

theorem register_key_and_contact:
  "(register debug dp env net contact w = (Inr regr, w') \<longrightarrow>
      reg_key (regr_body regr) = Some (public (key net))
      \<and> reg_contact (regr_body regr) = contact)
   \<and> (post dp env (Some (new_reg_uri net))
         (wrap_in_jws net (Registration_msg \<lparr>reg_key = None, reg_contact = contact\<rparr>))
         (Some JSON_CONTENT_TYPE) [] w = (Inr r, w1)
       \<and> (debug \<longrightarrow> status_code r = CREATED)
       \<and> regr_from_response dp r None None = Inr regr1 \<longrightarrow>
       register debug dp env net contact w =
         (if reg_key (regr_body regr1) \<noteq> Some (public (key net))
             \<or> reg_contact (regr_body regr1) \<noteq> contact
          then (Inl (UnexpectedUpdate (UU_regr regr1)), w1)
          else (Inr regr1, w1)))"
proof (intro conjI impI)
  assume a: "register debug dp env net contact w = (Inr regr, w')"
  then show "reg_key (regr_body regr) = Some (public (key net))"
    by (auto simp add: register_def split: prod.splits sum.splits if_splits)
  from a show "reg_contact (regr_body regr) = contact"
    by (auto simp add: register_def split: prod.splits sum.splits if_splits)
next
  assume "post dp env (Some (new_reg_uri net))
         (wrap_in_jws net (Registration_msg \<lparr>reg_key = None, reg_contact = contact\<rparr>))
         (Some JSON_CONTENT_TYPE) [] w = (Inr r, w1)
       \<and> (debug \<longrightarrow> status_code r = CREATED)
       \<and> regr_from_response dp r None None = Inr regr1"
  then show "register debug dp env net contact w =
         (if reg_key (regr_body regr1) \<noteq> Some (public (key net))
             \<or> reg_contact (regr_body regr1) \<noteq> contact
          then (Inl (UnexpectedUpdate (UU_regr regr1)), w1)
          else (Inr regr1, w1))"
    by (auto simp add: register_def)
qed

lemma post_register_env:
  "post example_deps (register_env k) (Some (new_reg_uri example_net))
     (wrap_in_jws example_net
        (Registration_msg \<lparr>reg_key = None, reg_contact = [''mailto:a@example.org'']\<rparr>))
     (Some JSON_CONTENT_TYPE) [] world0 =
   (Inr (reg_response k),
    \<lparr>clock = 0,
     trace = [(0, \<lparr>meth = POST, req_uri = Some (new_reg_uri example_net),
                   payload = Some (wrap_in_jws example_net
                     (Registration_msg
                        \<lparr>reg_key = None, reg_contact = [''mailto:a@example.org'']\<rparr>)),
                   req_headers = []\<rparr>)]\<rparr>)"
  by (simp add: register_env_def reg_response_def post_scripted_first check_json_response)

lemma regr_from_reg_response:
  "regr_from_response example_deps (reg_response (int k)) None None = Inr (example_regr k)"
  by (simp add: regr_from_response_def reg_response_def json_response_def example_deps_def
      example_regr_def)

lemma status_reg_response: "status_code (reg_response k) = CREATED"
  by (simp add: reg_response_def json_response_def CREATED_def)

theorem register_key_and_contact_witness:
  "fst (register True example_deps (register_env 7) example_net [''mailto:a@example.org'']
          world0) = Inr (example_regr 7)
   \<and> reg_key (regr_body (example_regr 7)) = Some (public (key example_net))
   \<and> reg_contact (regr_body (example_regr 7)) = [''mailto:a@example.org'']
   \<and> fst (register True example_deps (register_env 8) example_net [''mailto:a@example.org'']
          world0) = Inl (UnexpectedUpdate (UU_regr (example_regr 8)))"
proof -
  have h: "post example_deps (register_env (int k)) (Some (new_reg_uri example_net))
     (wrap_in_jws example_net
        (Registration_msg \<lparr>reg_key = None, reg_contact = [''mailto:a@example.org'']\<rparr>))
     (Some JSON_CONTENT_TYPE) [] world0 =
   (Inr (reg_response (int k)),
    \<lparr>clock = 0,
     trace = [(0, \<lparr>meth = POST, req_uri = Some (new_reg_uri example_net),
                   payload = Some (wrap_in_jws example_net
                     (Registration_msg
                        \<lparr>reg_key = None, reg_contact = [''mailto:a@example.org'']\<rparr>)),
                   req_headers = []\<rparr>)]\<rparr>)
     \<and> (True \<longrightarrow> status_code (reg_response (int k)) = CREATED)
     \<and> regr_from_response example_deps (reg_response (int k)) None None = Inr (example_regr k)"
    for k
    by (simp add: post_register_env regr_from_reg_response status_reg_response)
  note t7 = register_key_and_contact [THEN conjunct2, rule_format, OF h [of 7]]
  note t8 = register_key_and_contact [THEN conjunct2, rule_format, OF h [of 8]]
  have r7: "fst (register True example_deps (register_env 7) example_net
                   [''mailto:a@example.org''] world0) = Inr (example_regr 7)"
    using t7 by (simp add: example_regr_def example_net_def)
  have r8: "fst (register True example_deps (register_env 8) example_net
                   [''mailto:a@example.org''] world0)
            = Inl (UnexpectedUpdate (UU_regr (example_regr 8)))"
    using t8 by (simp add: example_regr_def example_net_def)
  have "register True example_deps (register_env 7) example_net [''mailto:a@example.org'']
          world0 = (Inr (example_regr 7), snd (register True example_deps (register_env 7)
             example_net [''mailto:a@example.org''] world0))"
    using r7 by (metis prod.collapse)
  from register_key_and_contact [THEN conjunct1, rule_format, OF this] r7 r8
  show ?thesis by simp
qed

section \<open>Certificate refresh\<close>

text \<open>
  What \<^verbatim>\<open>check_cert\<close> does once the certificate has been fetched and the response
  declares a location: the test \<^verbatim>\<open>not response.headers['location'] != certr.uri\<close> raises
  when the location is the stored one.
\<close>

lemma check_cert_raises_on_same_location:
  assumes "get_cert dp env (certr_uri certr) w = (Inr (r, cert), w')"
    and "headers r ''location'' = Some l"
  shows "check_cert dp env certr w =
           (if Some l = certr_uri certr
            then (Inl (UnexpectedUpdate (UU_text (resp_text r))), w')
            else (Inr (certr\<lparr>certr_body := cert\<rparr>), w'))"
  using assms by (simp add: check_cert_def)

lemma get_cert_cert_env:
  "get_cert example_deps (cert_env l) u world0 =
     (Inr (der_response 200 [(''location'', l)] [] ''new'', X509 ''new''),
      \<lparr>clock = 0,
       trace = [(0, \<lparr>meth = GET, req_uri = u, payload = None,
                     req_headers = [(''Accept'', DER_CONTENT_TYPE)]\<rparr>)]\<rparr>)"
  by (simp add: get_cert_def cert_env_def get_scripted_first check_der_response)
     (simp add: der_response_def example_deps_def)

text \<open>
  Claim C4 on two servers: one declares the stored location \<^verbatim>\<open>https://ca/cert/1\<close> and
  \<^verbatim>\<open>check_cert\<close> and \<^verbatim>\<open>refresh\<close> raise \<^verbatim>\<open>UnexpectedUpdate\<close>; the other declares
  another location and the updated resource is returned.
\<close>

theorem check_cert_location_test_inverted:
  "fst (check_cert example_deps (cert_env ''https://ca/cert/1'') example_certr world0) =
     Inl (UnexpectedUpdate (UU_text ''new''))
   \<and> fst (refresh example_deps (cert_env ''https://ca/cert/1'') example_certr world0) =
     Inl (UnexpectedUpdate (UU_text ''new''))
   \<and> fst (check_cert example_deps (cert_env ''https://ca/cert/2'') example_certr world0) =
     Inr \<lparr>certr_body = X509 ''new'', certr_uri = Some ''https://ca/cert/1'',
          certr_cert_chain_uri = ''https://ca/chain'', certr_authzrs = [example_authzr]\<rparr>"
  by (simp add: refresh_def check_cert_def get_cert_cert_env)
     (simp add: der_response_def example_certr_def)

section \<open>The polling loop\<close>

text \<open>
  Every exchange adds one request to the trace, stamped with the time it was sent at.
\<close>

lemma send_trace:
  "send env rq w = (r, w') \<Longrightarrow> trace w' = trace w @ [(clock w, rq)]"
  by (auto simp add: send_def split: prod.splits)

lemma get_trace:
  assumes "get dp env u ct hs w = (res, w')"
  shows "trace w' =
           trace w @ [(clock w, \<lparr>meth = GET, req_uri = u, payload = None, req_headers = hs\<rparr>)]"
proof -
  obtain r w1 where s: "send env \<lparr>meth = GET, req_uri = u, payload = None, req_headers = hs\<rparr> w
                         = (r, w1)"
    by (cases "send env \<lparr>meth = GET, req_uri = u, payload = None, req_headers = hs\<rparr> w")
  with assms have "w' = w1"
    by (auto simp add: get_def split: option.splits sum.splits)
  with send_trace [OF s] show ?thesis by simp
qed

lemma post_trace:
  assumes "post dp env u d ct hs w = (res, w')"
  shows "trace w' =
           trace w @ [(clock w, \<lparr>meth = POST, req_uri = u, payload = Some d, req_headers = hs\<rparr>)]"
proof -
  obtain r w1 where s: "send env \<lparr>meth = POST, req_uri = u, payload = Some d, req_headers = hs\<rparr> w
                         = (r, w1)"
    by (cases "send env \<lparr>meth = POST, req_uri = u, payload = Some d, req_headers = hs\<rparr> w")
  with assms have "w' = w1"
    by (auto simp add: post_def split: option.splits sum.splits)
  with send_trace [OF s] show ?thesis by simp
qed

lemma poll_trace:
  assumes "poll dp env net authzr w = (res, w')"
  shows "trace w' =
           trace w @ [(clock w, \<lparr>meth = GET, req_uri = authzr_uri authzr, payload = None,
                                 req_headers = []\<rparr>)]"
proof -
  obtain g w1 where g: "get dp env (authzr_uri authzr) (Some JSON_CONTENT_TYPE) [] w = (g, w1)"
    by (cases "get dp env (authzr_uri authzr) (Some JSON_CONTENT_TYPE) [] w")
  with assms have "w' = w1"
    by (auto simp add: poll_def split: sum.splits)
  with get_trace [OF g] show ?thesis by simp
qed

text \<open>
  One turn of the loop, for a queue whose least entry is known.
\<close>

lemma loop_body_unfold:
  assumes "heappop waiting = Some ((Some whn, authzr), rest)"
  shows "loop_body debug dp env net mintime waiting updated w =
     (case poll dp env net authzr (slept whn w) of
        (Inl e, w2) \<Rightarrow> (Inl e, w2)
      | (Inr (updated_authzr, r), w2) \<Rightarrow>
          if debug \<and> \<not> uri_eq_resource (authzr_uri updated_authzr) authzr
          then (Inl AssertionError, w2)
          else if authz_status (authzr_body updated_authzr) \<noteq> STATUS_VALID
          then (case retry_after dp r mintime w2 of
                  Inl e \<Rightarrow> (Inl e, w2)
                | Inr t \<Rightarrow>
                    (case heappush rest (t, authzr) of
                       Inl e \<Rightarrow> (Inl e, w2)
                     | Inr waiting' \<Rightarrow>
                         (Inr (waiting', updated(authzr \<mapsto> updated_authzr)), w2)))
          else (Inr (rest, updated(authzr \<mapsto> updated_authzr)), w2))"
  using assms
  by (cases "clock w < whn")
     (simp_all add: loop_body_def slept_def Let_def split: prod.split sum.split)

lemma loop_body_untimed:
  assumes "heappop waiting = Some ((None, authzr), rest)"
  shows "loop_body debug dp env net mintime waiting updated w = (Inl TypeError, w)"
  using assms by (simp add: loop_body_def)

lemma heappush_Inr: "heappush h e = Inr q \<Longrightarrow> q = h @ [e]"
  by (simp add: heappush_def split: if_splits)

lemma heappush_timed:
  "\<forall>x\<in>set h. fst x \<noteq> None \<Longrightarrow> heappush h (Some t, a) = Inr (h @ [(Some t, a)])"
  by (simp add: heappush_def list_ex_iff)

lemma heappop_Some:
  assumes "heappop h = Some (e, rest)"
  shows "e \<in> set h \<and> rest = remove1 e h"
proof -
  have l: "least x xs \<in> set (x # xs)" for x :: "int option \<times> 'a" and xs
    by (induction xs arbitrary: x) auto
  from assms show ?thesis
    using l by (cases h) (auto simp add: heappop_def)
qed

lemma heappop_nonempty: "h \<noteq> [] \<Longrightarrow> \<exists>e rest. heappop h = Some (e, rest)"
  by (cases h) (simp_all add: heappop_def)

text \<open>
  A turn sends at most one request: a GET of the URI of the authorization resource that was
  enqueued, at the time the sleep ends. A turn that pops an entry without a time sends none.
\<close>

lemma loop_body_trace:
  assumes "heappop waiting = Some ((Some whn, authzr), rest)"
    and "loop_body debug dp env net mintime waiting updated w = (res, w')"
  shows "trace w' =
           trace w @ [(clock (slept whn w),
                       \<lparr>meth = GET, req_uri = authzr_uri authzr, payload = None,
                        req_headers = []\<rparr>)]"
proof -
  obtain p w2 where p: "poll dp env net authzr (slept whn w) = (p, w2)"
    by (cases "poll dp env net authzr (slept whn w)")
  from assms(2) have "w' = w2"
    unfolding loop_body_unfold [OF assms(1)] p
    by (auto split: sum.splits prod.splits if_splits option.splits)
  moreover have "trace (slept whn w) = trace w"
    by (simp add: slept_def sleep_def)
  ultimately show ?thesis using poll_trace [OF p] by simp
qed

lemma loop_body_queue:
  assumes "heappop waiting = Some ((whn, authzr), rest)"
    and "loop_body debug dp env net mintime waiting updated w = (Inr (waiting', updated'), w')"
  shows "(\<exists>u. updated' = updated(authzr \<mapsto> u)
              \<and> authz_status (authzr_body u) = STATUS_VALID \<and> waiting' = rest)
         \<or> (\<exists>u t. updated' = updated(authzr \<mapsto> u)
              \<and> authz_status (authzr_body u) \<noteq> STATUS_VALID
              \<and> waiting' = rest @ [(t, authzr)])"
proof (cases whn)
  case None
  with assms show ?thesis by (simp add: loop_body_untimed)
next
  case (Some tm)
  note h = assms(1) [unfolded Some]
  obtain p w2 where p: "poll dp env net authzr (slept tm w) = (p, w2)"
    by (cases "poll dp env net authzr (slept tm w)")
  show ?thesis
  proof (cases p)
    case (Inl err)
    with assms(2) show ?thesis
      unfolding loop_body_unfold [OF h] p by simp
  next
    case (Inr q)
    obtain u r where q: "q = (u, r)" by (cases q)
    show ?thesis
    proof (cases "authz_status (authzr_body u) = STATUS_VALID")
      case True
      with assms(2) have "updated' = updated(authzr \<mapsto> u) \<and> waiting' = rest"
        unfolding loop_body_unfold [OF h] p Inr q
        by (simp split: if_splits)
      with True show ?thesis by blast
    next
      case False
      with assms(2) have "updated' = updated(authzr \<mapsto> u)
                           \<and> (\<exists>t. waiting' = rest @ [(t, authzr)])"
        unfolding loop_body_unfold [OF h] p Inr q
        by (auto dest: heappush_Inr split: if_splits sum.splits)
      with False show ?thesis by blast
    qed
  qed
qed

text \<open>
  Every request the loop sends is a GET of the URI of a resource of its queue; the
  refreshed snapshots are never polled.
\<close>

lemma poll_loop_trace:
  assumes "poll_loop fuel debug dp env net mintime waiting updated w = Some (res, w')"
  shows "\<exists>polls. trace w' = trace w @ polls
           \<and> (\<forall>e\<in>set polls. \<exists>a\<in>snd ` set waiting.
                 snd e = \<lparr>meth = GET, req_uri = authzr_uri a, payload = None,
                          req_headers = []\<rparr>)"
  using assms
proof (induction fuel arbitrary: waiting updated w)
  case 0
  then show ?case by (simp split: if_splits)
next
  case (Suc n)
  show ?case
  proof (cases "waiting = []")
    case True
    with Suc.prems show ?thesis by simp
  next
    case False
    then obtain e rest where h0: "heappop waiting = Some (e, rest)"
      using heappop_nonempty by blast
    obtain whn authzr where e: "e = (whn, authzr)" by (cases e)
    note h = h0 [unfolded e]
    from heappop_Some [OF h] have mem: "(whn, authzr) \<in> set waiting"
      and rest: "rest = remove1 (whn, authzr) waiting" by simp_all
    obtain b w1 where b: "loop_body debug dp env net mintime waiting updated w = (b, w1)"
      by (cases "loop_body debug dp env net mintime waiting updated w")
    have a: "authzr \<in> snd ` set waiting"
      using mem by force
    obtain g where t1: "trace w1 = trace w @ g" and
      g: "\<forall>e\<in>set g. snd e = \<lparr>meth = GET, req_uri = authzr_uri authzr, payload = None,
                                  req_headers = []\<rparr>"
    proof (cases whn)
      case None
      with h b have "w1 = w" by (simp add: loop_body_untimed)
      then have "trace w1 = trace w @ []" by simp
      with that show ?thesis by fastforce
    next
      case (Some tm)
      from loop_body_trace [OF h [unfolded Some] b] that show ?thesis by fastforce
    qed
    show ?thesis
    proof (cases b)
      case (Inl err)
      with Suc.prems False b have "w' = w1" by simp
      with t1 g a show ?thesis by blast
    next
      case (Inr q)
      obtain waiting' updated' where q: "q = (waiting', updated')" by (cases q)
      from Suc.prems False b Inr q
      have run: "poll_loop n debug dp env net mintime waiting' updated' w1 = Some (res, w')"
        by simp
      from Suc.IH [OF run] obtain polls where
        t2: "trace w' = trace w1 @ polls" and
        p2: "\<forall>e\<in>set polls. \<exists>a\<in>snd ` set waiting'.
               snd e = \<lparr>meth = GET, req_uri = authzr_uri a, payload = None,
                        req_headers = []\<rparr>"
        by blast
      from loop_body_queue [OF h b [unfolded Inr q]]
      have "set waiting' \<subseteq> set rest \<union> {(t, authzr) | t. True}"
        by auto
      moreover have "set rest \<subseteq> set waiting"
        unfolding rest by (rule set_remove1_subset)
      ultimately have sub: "snd ` set waiting' \<subseteq> snd ` set waiting"
        using a by force
      have "trace w' = trace w @ (g @ polls)"
        using t1 t2 by simp
      moreover have "\<exists>a\<in>snd ` set waiting.
               snd e = \<lparr>meth = GET, req_uri = authzr_uri a, payload = None,
                        req_headers = []\<rparr>" if "e \<in> set polls" for e
        using p2 sub that by blast
      then have "\<forall>e\<in>set (g @ polls). \<exists>a\<in>snd ` set waiting.
               snd e = \<lparr>meth = GET, req_uri = authzr_uri a, payload = None,
                        req_headers = []\<rparr>"
        using a g by auto
      ultimately show ?thesis by blast
    qed
  qed
qed

text \<open>
  When the loop ends without a fault, every resource that was in the queue or already
  valid has a valid snapshot.
\<close>

lemma poll_loop_all_valid:
  assumes "poll_loop fuel debug dp env net mintime waiting updated w = Some (Inr updated', w')"
    and "\<forall>a\<in>A. a \<in> snd ` set waiting
           \<or> (\<exists>u. updated a = Some u \<and> authz_status (authzr_body u) = STATUS_VALID)"
  shows "\<forall>a\<in>A. \<exists>u. updated' a = Some u \<and> authz_status (authzr_body u) = STATUS_VALID"
  using assms
proof (induction fuel arbitrary: waiting updated w)
  case 0
  then show ?case by (auto split: if_splits)
next
  case (Suc n)
  show ?case
  proof (cases "waiting = []")
    case True
    with Suc.prems show ?thesis by auto
  next
    case False
    then obtain e rest where h0: "heappop waiting = Some (e, rest)"
      using heappop_nonempty by blast
    obtain whn authzr where e: "e = (whn, authzr)" by (cases e)
    note h = h0 [unfolded e]
    from heappop_Some [OF h] have rest: "rest = remove1 (whn, authzr) waiting" by simp
    obtain b w1 where b: "loop_body debug dp env net mintime waiting updated w = (b, w1)"
      by (cases "loop_body debug dp env net mintime waiting updated w")
    from Suc.prems(1) False b obtain q where bq: "b = Inr q"
      by (cases b) simp_all
    obtain waiting' upd1 where q: "q = (waiting', upd1)" by (cases q)
    from Suc.prems(1) False b bq q
    have run: "poll_loop n debug dp env net mintime waiting' upd1 w1 = Some (Inr updated', w')"
      by simp
    have keep: "a \<in> snd ` set rest" if "a \<in> snd ` set waiting" and "a \<noteq> authzr" for a
    proof -
      from that(1) obtain t where "(t, a) \<in> set waiting" by force
      moreover from that(2) have "(t, a) \<noteq> (whn, authzr)" by simp
      ultimately have "(t, a) \<in> set rest" unfolding rest by simp
      then show ?thesis by force
    qed
    have inv: "\<forall>a\<in>A. a \<in> snd ` set waiting'
           \<or> (\<exists>u. upd1 a = Some u \<and> authz_status (authzr_body u) = STATUS_VALID)"
    proof
      fix a assume aA: "a \<in> A"
      from loop_body_queue [OF h b [unfolded bq q]]
      consider u where "upd1 = updated(authzr \<mapsto> u)"
          "authz_status (authzr_body u) = STATUS_VALID" "waiting' = rest"
        | u t where "upd1 = updated(authzr \<mapsto> u)" "waiting' = rest @ [(t, authzr)]"
        by blast
      then show "a \<in> snd ` set waiting'
           \<or> (\<exists>u. upd1 a = Some u \<and> authz_status (authzr_body u) = STATUS_VALID)"
      proof cases
        case 1
        show ?thesis
        proof (cases "a = authzr")
          case True
          with 1 show ?thesis by simp
        next
          case False
          with Suc.prems(2) aA keep 1 show ?thesis by auto
        qed
      next
        case 2
        show ?thesis
        proof (cases "a = authzr")
          case True
          with 2 show ?thesis by force
        next
          case False
          with Suc.prems(2) aA keep 2 show ?thesis by auto
        qed
      qed
    qed
    from Suc.IH [OF run inv] show ?thesis .
  qed
qed

lemma those_map_Some:
  "those (map f xs) = Some ys \<Longrightarrow> \<forall>y\<in>set ys. \<exists>x\<in>set xs. f x = Some y"
  by (induction xs arbitrary: ys) (fastforce split: option.splits)+

lemma request_issuance_Inr:
  assumes "request_issuance dp env net csr authzrs w = (Inr certr, w')"
  shows "authzrs \<noteq> [] \<and> certr_authzrs certr = authzrs
         \<and> trace w' = trace w @
              [(clock w,
                \<lparr>meth = POST, req_uri = Some (authzr_new_cert_uri (hd authzrs)),
                 payload = Some (wrap_in_jws net
                             (CertificateRequest_msg csr (map authzr_uri authzrs))),
                 req_headers = [(''Accept'', DER_CONTENT_TYPE)]\<rparr>)]"
proof (cases authzrs)
  case Nil
  with assms show ?thesis by (simp add: request_issuance_def)
next
  case (Cons a as)
  obtain p w1 where p: "post dp env (Some (authzr_new_cert_uri a))
      (wrap_in_jws net (CertificateRequest_msg csr (map authzr_uri authzrs)))
      (Some DER_CONTENT_TYPE) [(''Accept'', DER_CONTENT_TYPE)] w = (p, w1)"
    by (cases "post dp env (Some (authzr_new_cert_uri a))
      (wrap_in_jws net (CertificateRequest_msg csr (map authzr_uri authzrs)))
      (Some DER_CONTENT_TYPE) [(''Accept'', DER_CONTENT_TYPE)] w")
  from assms have "w' = w1 \<and> certr_authzrs certr = authzrs"
    unfolding request_issuance_def Cons list.case p [unfolded Cons]
    by (auto split: sum.splits option.splits)
  with post_trace [OF p] Cons show ?thesis by simp
qed

text \<open>
  What \<^verbatim>\<open>poll_and_request_issuance\<close> has done when it returns: every request before the
  last is a poll of one of the original resources, every final snapshot is valid, the last
  request is the one POST, to the first resource's \<^verbatim>\<open>new_cert_uri\<close>, and the certificate
  resource carries the original list.
\<close>

lemma issuance_after_polling:
  assumes "poll_and_request_issuance fuel debug dp env net csr authzrs mintime w =
             Some (Inr (certr, finals), w')"
  shows "certr_authzrs certr = authzrs
         \<and> (\<forall>u\<in>set finals. authz_status (authzr_body u) = STATUS_VALID)
         \<and> (\<exists>polls t p.
               trace w' = trace w @ polls @
                 [(t, \<lparr>meth = POST, req_uri = Some (authzr_new_cert_uri (hd authzrs)),
                       payload = Some p, req_headers = [(''Accept'', DER_CONTENT_TYPE)]\<rparr>)]
               \<and> (\<forall>e\<in>set polls. \<exists>a\<in>set authzrs.
                     snd e = \<lparr>meth = GET, req_uri = authzr_uri a, payload = None,
                              req_headers = []\<rparr>))"
proof -
  let ?waiting = "map (\<lambda>authzr. (Some (clock w), authzr)) authzrs"
  let ?updated = "map_of (map (\<lambda>authzr. (authzr, authzr)) authzrs)"
  from assms obtain upd w1 where
    l: "poll_loop fuel debug dp env net mintime ?waiting ?updated w = Some (Inr upd, w1)"
    by (auto simp add: poll_and_request_issuance_def Let_def
          split: option.splits sum.splits prod.splits)
  from assms l have
    r: "request_issuance dp env net csr authzrs w1 = (Inr certr, w')"
    and f: "those (map upd authzrs) = Some finals"
    by (auto simp add: poll_and_request_issuance_def Let_def
          split: option.splits sum.splits prod.splits)
  have s: "snd ` set ?waiting = set authzrs"
    by force
  from poll_loop_trace [OF l] obtain polls where
    t1: "trace w1 = trace w @ polls" and
    p1: "\<forall>e\<in>set polls. \<exists>a\<in>set authzrs.
           snd e = \<lparr>meth = GET, req_uri = authzr_uri a, payload = None, req_headers = []\<rparr>"
    unfolding s by blast
  have "\<forall>a\<in>set authzrs. a \<in> snd ` set ?waiting
           \<or> (\<exists>u. ?updated a = Some u \<and> authz_status (authzr_body u) = STATUS_VALID)"
    unfolding s by simp
  from poll_loop_all_valid [OF l this]
  have v: "\<forall>a\<in>set authzrs. \<exists>u. upd a = Some u \<and> authz_status (authzr_body u) = STATUS_VALID" .
  have fin: "\<forall>u\<in>set finals. authz_status (authzr_body u) = STATUS_VALID"
    using those_map_Some [OF f] v by fastforce
  from request_issuance_Inr [OF r] t1 p1 fin show ?thesis
    by auto
qed

text \<open>
  A run that ends within some number of turns ends the same way with more fuel.
\<close>

lemma poll_loop_more_fuel:
  assumes "poll_loop fuel debug dp env net mintime waiting updated w = Some res"
  shows "poll_loop (fuel + k) debug dp env net mintime waiting updated w = Some res"
  using assms
proof (induction fuel arbitrary: waiting updated w)
  case 0
  then show ?case by (cases k) (simp_all split: if_splits)
next
  case (Suc n)
  show ?case
  proof (cases "waiting = []")
    case True
    with Suc.prems show ?thesis by simp
  next
    case False
    obtain b w1 where b: "loop_body debug dp env net mintime waiting updated w = (b, w1)"
      by (cases "loop_body debug dp env net mintime waiting updated w")
    show ?thesis
    proof (cases b)
      case (Inl e)
      with Suc.prems False b show ?thesis by simp
    next
      case (Inr q)
      obtain waiting' updated' where q: "q = (waiting', updated')" by (cases q)
      from Suc.prems False b Inr q
      have "poll_loop n debug dp env net mintime waiting' updated' w1 = Some res" by simp
      from Suc.IH [OF this] False b Inr q show ?thesis by simp
    qed
  qed
qed

text \<open>
  With assertions on, \<^verbatim>\<open>assert updated_authzr.uri == authzr\<close> fails in every turn
  whose poll succeeds, so the loop never passes its first turn and
  \<^verbatim>\<open>poll_and_request_issuance\<close> never returns a certificate resource.
\<close>

lemma loop_body_asserts:
  assumes "waiting \<noteq> []"
  shows "\<exists>e w'. loop_body True dp env net mintime waiting updated w = (Inl e, w')"
proof -
  from assms obtain en rest where h0: "heappop waiting = Some (en, rest)"
    using heappop_nonempty by blast
  obtain whn authzr where en: "en = (whn, authzr)" by (cases en)
  note h = h0 [unfolded en]
  show ?thesis
  proof (cases whn)
    case None
    with h show ?thesis by (simp add: loop_body_untimed)
  next
    case (Some tm)
    obtain p w2 where p: "poll dp env net authzr (slept tm w) = (p, w2)"
      by (cases "poll dp env net authzr (slept tm w)")
    show ?thesis
      unfolding loop_body_unfold [OF h [unfolded Some]] p
      by (cases p) (auto simp add: uri_eq_resource_def)
  qed
qed

lemma poll_loop_asserts:
  assumes "waiting \<noteq> []"
  shows "poll_loop fuel True dp env net mintime waiting updated w \<noteq> Some (Inr x, w')"
proof (cases fuel)
  case 0
  with assms show ?thesis by simp
next
  case (Suc n)
  from loop_body_asserts [OF assms] obtain e w1
    where "loop_body True dp env net mintime waiting updated w = (Inl e, w1)" by blast
  with assms Suc show ?thesis by simp
qed

lemma issuance_never_returns_with_assertions:
  "poll_and_request_issuance fuel True dp env net csr authzrs mintime w \<noteq> Some (Inr x, w')"
proof (cases authzrs)
  case Nil
  then show ?thesis
    by (cases fuel) (simp_all add: poll_and_request_issuance_def request_issuance_def)
next
  case (Cons a as)
  then have "map (\<lambda>authzr. (Some (clock w), authzr)) authzrs \<noteq> []" by simp
  from poll_loop_asserts [OF this]
  show ?thesis
    by (auto simp add: poll_and_request_issuance_def Let_def
          split: option.splits sum.splits prod.splits)
qed

subsection \<open>Runs against scripted servers\<close>

lemma send_scripted:
  assumes "length (trace w) < length script" and "script ! length (trace w) = (d, r)"
  shows "send (scripted script) rq w =
           (r, \<lparr>clock = clock w + int d, trace = trace w @ [(clock w, rq)]\<rparr>)"
  using assms by (simp add: send_def scripted_def)

lemma post_scripted:
  assumes "length (trace w) < length script"
    and "script ! length (trace w) = (d, Some r)"
  shows "post dp (scripted script) u m ct hs w =
     (case check_response dp r ct of
        Inl e \<Rightarrow>
          (Inl e, \<lparr>clock = clock w + int d,
                   trace = trace w @ [(clock w, \<lparr>meth = POST, req_uri = u, payload = Some m,
                                                 req_headers = hs\<rparr>)]\<rparr>)
      | Inr _ \<Rightarrow>
          (Inr r, \<lparr>clock = clock w + int d,
                   trace = trace w @ [(clock w, \<lparr>meth = POST, req_uri = u, payload = Some m,
                                                 req_headers = hs\<rparr>)]\<rparr>))"
  by (simp add: post_def send_scripted [OF assms])

lemma authzr_from_poll_response:
  "map_of hs ''location'' = None \<Longrightarrow>
   authzr_from_response example_deps example_net (poll_response st hs)
     (authz_identifier (authzr_body example_authzr)) (authzr_uri example_authzr)
     (Some (authzr_new_cert_uri example_authzr)) = Inr (polled st)"
  by (simp add: authzr_from_response_def poll_response_def json_response_def authz_json_def
      example_deps_def example_net_def example_authzr_def polled_def)

lemma poll_scripted:
  assumes "length (trace w) < length script"
    and "script ! length (trace w) = (d, Some (poll_response st hs))"
    and "map_of hs ''location'' = None"
  shows "poll example_deps (scripted script) example_net example_authzr w =
           (Inr (polled st, poll_response st hs),
            \<lparr>clock = clock w + int d,
             trace = trace w @ [(clock w, \<lparr>meth = GET, req_uri = authzr_uri example_authzr,
                                           payload = None, req_headers = []\<rparr>)]\<rparr>)"
  using assms(3)
  by (simp add: poll_def get_def send_scripted [OF assms(1,2)] poll_response_def
      check_json_response authzr_from_poll_response [unfolded poll_response_def])

lemma status_polled: "authz_status (authzr_body (polled st)) = Status st"
  by (simp add: polled_def)

lemma heappop_single: "heappop [e] = Some (e, [])"
  by (simp add: heappop_def)

lemma py_int_10: "py_int ''10'' = Some 10"
  by (simp add: py_int_def strip_def is_space_def digit_of_def)

lemma py_int_100000: "py_int ''100000'' = Some 100000"
  by (simp add: py_int_def strip_def is_space_def digit_of_def)

lemma retry_after_header:
  assumes "py_int ra = Some seconds" and "0 \<le> seconds" and "seconds \<le> 1000000"
    and "clock w = 0"
  shows "retry_after dp (poll_response st [(''Retry-After'', ra)]) m w =
           Inr (Some (seconds * 1000000))"
proof -
  have "seconds div 86400 \<le> 1000000 div 86400"
    using assms(3) by (rule zdiv_mono1) simp
  moreover have "0 \<le> seconds div 86400"
    using assms(2) by (simp add: pos_imp_zdiv_nonneg_iff)
  ultimately have "seconds div 86400 \<le> 999999999" and "- 999999999 \<le> seconds div 86400"
    by simp_all
  with assms show ?thesis
    by (simp add: retry_after_def poll_response_def json_response_def TIMEDELTA_MAX_DAYS_def
        DATETIME_MAX_def DATETIME_MIN_def)
qed

lemma loop_body_scripted:
  assumes "length (trace w) < length script"
    and "script ! length (trace w) = (d, Some (poll_response st hs))"
    and "map_of hs ''location'' = None"
  shows "loop_body False example_deps (scripted script) example_net m
           [(Some whn, example_authzr)] updated w =
         (if Status st \<noteq> STATUS_VALID
          then (case retry_after example_deps (poll_response st hs) m
                       \<lparr>clock = clock (slept whn w) + int d,
                        trace = trace w @ [(clock (slept whn w),
                          \<lparr>meth = GET, req_uri = authzr_uri example_authzr,
                           payload = None, req_headers = []\<rparr>)]\<rparr> of
                  Inl e \<Rightarrow>
                    (Inl e,
                     \<lparr>clock = clock (slept whn w) + int d,
                      trace = trace w @ [(clock (slept whn w),
                        \<lparr>meth = GET, req_uri = authzr_uri example_authzr,
                         payload = None, req_headers = []\<rparr>)]\<rparr>)
                | Inr t \<Rightarrow>
                    (Inr ([(t, example_authzr)], updated(example_authzr \<mapsto> polled st)),
                     \<lparr>clock = clock (slept whn w) + int d,
                      trace = trace w @ [(clock (slept whn w),
                        \<lparr>meth = GET, req_uri = authzr_uri example_authzr,
                         payload = None, req_headers = []\<rparr>)]\<rparr>))
          else (Inr ([], updated(example_authzr \<mapsto> polled st)),
                \<lparr>clock = clock (slept whn w) + int d,
                 trace = trace w @ [(clock (slept whn w),
                   \<lparr>meth = GET, req_uri = authzr_uri example_authzr,
                    payload = None, req_headers = []\<rparr>)]\<rparr>))"
proof -
  have t: "trace (slept whn w) = trace w"
    by (simp add: slept_def sleep_def)
  have p: "poll example_deps (scripted script) example_net example_authzr (slept whn w) =
           (Inr (polled st, poll_response st hs),
            \<lparr>clock = clock (slept whn w) + int d,
             trace = trace w @ [(clock (slept whn w),
               \<lparr>meth = GET, req_uri = authzr_uri example_authzr,
                payload = None, req_headers = []\<rparr>)]\<rparr>)"
    using poll_scripted [of "slept whn w" script d st hs] assms unfolding t by simp
  show ?thesis
    unfolding loop_body_unfold [OF heappop_single] p
    by (simp add: heappush_def status_polled split: sum.split)
qed

lemma request_issuance_scripted:
  assumes "length (trace w) < length script"
    and "script ! length (trace w) = (d, Some cert_response)"
  shows "request_issuance example_deps (scripted script) example_net csr [example_authzr] w =
     (Inr \<lparr>certr_body = X509 ''cert'', certr_uri = None,
           certr_cert_chain_uri = ''https://ca/chain'', certr_authzrs = [example_authzr]\<rparr>,
      \<lparr>clock = clock w + int d,
       trace = trace w @ [(clock w,
         \<lparr>meth = POST, req_uri = Some ''https://ca/new-cert'',
          payload = Some (wrap_in_jws example_net
                      (CertificateRequest_msg csr [Some ''https://ca/authz/1''])),
          req_headers = [(''Accept'', DER_CONTENT_TYPE)]\<rparr>)]\<rparr>)"
  by (simp add: request_issuance_def post_scripted [OF assms] cert_response_def
      check_der_response)
     (simp add: der_response_def example_deps_def example_authzr_def)

text \<open>
  A run with assertions off against a server that answers the first poll with a status
  other than valid and \<^verbatim>\<open>Retry-After: s\<close>, the second poll with valid, and the
  certificate request with a certificate: the second poll is sent \<open>s mod 86400\<close> seconds
  after the first.
\<close>

lemma run_poll_script:
  assumes "Status st \<noteq> STATUS_VALID" and "py_int ra = Some s" and "0 \<le> s"
    and "s \<le> 1000000"
  shows "map_option (requests_of \<circ> snd)
           (poll_and_request_issuance (Suc (Suc 0)) False example_deps
              (scripted (poll_script st ra)) example_net csr [example_authzr] 5 world0) =
         Some [(0, GET, Some ''https://ca/authz/1''),
               ((s mod 86400) * 1000000, GET, Some ''https://ca/authz/1''),
               ((s mod 86400) * 1000000, POST, Some ''https://ca/new-cert'')]"
proof -
  let ?g = "\<lparr>meth = GET, req_uri = authzr_uri example_authzr, payload = None,
             req_headers = []\<rparr>"
  let ?w1 = "\<lparr>clock = 0, trace = [(0, ?g)]\<rparr>"
  have s0: "slept 0 world0 = world0"
    by (simp add: slept_def world0_def)
  have ra: "retry_after example_deps (poll_response st [(''Retry-After'', ra)]) 5 ?w1 =
              Inr (Some (s * 1000000))"
    by (rule retry_after_header [OF assms(2,3,4)]) simp
  have b1: "loop_body False example_deps (scripted (poll_script st ra)) example_net 5
              [(Some 0, example_authzr)] upd world0 =
            (Inr ([(Some (s * 1000000), example_authzr)], upd(example_authzr \<mapsto> polled st)),
             ?w1)"
    for upd
    using assms(1)
    by (subst loop_body_scripted [where d = 0 and st = st and hs = "[(''Retry-After'', ra)]"])
       (simp_all add: poll_script_def world0_def s0 [unfolded world0_def] ra)
  have c1: "clock (slept (s * 1000000) ?w1) = (s mod 86400) * 1000000"
    using assms(3) by (simp add: slept_def sleep_def)
  let ?t = "(s mod 86400) * 1000000"
  let ?w2 = "\<lparr>clock = ?t, trace = [(0, ?g), (?t, ?g)]\<rparr>"
  have b2: "loop_body False example_deps (scripted (poll_script st ra)) example_net 5
              [(Some (s * 1000000), example_authzr)] upd ?w1 =
            (Inr ([], upd(example_authzr \<mapsto> polled ''valid'')), ?w2)" for upd
    by (subst loop_body_scripted [where d = 0 and st = "''valid''" and hs = "[]"])
       (simp_all add: poll_script_def c1 STATUS_VALID_def)
  have r: "request_issuance example_deps (scripted (poll_script st ra)) example_net csr
             [example_authzr] ?w2 =
     (Inr \<lparr>certr_body = X509 ''cert'', certr_uri = None,
           certr_cert_chain_uri = ''https://ca/chain'', certr_authzrs = [example_authzr]\<rparr>,
      \<lparr>clock = ?t,
       trace = [(0, ?g), (?t, ?g), (?t,
         \<lparr>meth = POST, req_uri = Some ''https://ca/new-cert'',
          payload = Some (wrap_in_jws example_net
                      (CertificateRequest_msg csr [Some ''https://ca/authz/1''])),
          req_headers = [(''Accept'', DER_CONTENT_TYPE)]\<rparr>)]\<rparr>)"
    by (subst request_issuance_scripted [where d = 0]) (simp_all add: poll_script_def)
  have l: "poll_loop (Suc (Suc 0)) False example_deps (scripted (poll_script st ra))
             example_net 5 [(Some 0, example_authzr)] upd world0 =
           Some (Inr (upd(example_authzr \<mapsto> polled ''valid'')), ?w2)" for upd
    by (simp add: b1 b2)
  have c0: "clock world0 = 0"
    by (simp add: world0_def)
  have u: "authzr_uri example_authzr = Some ''https://ca/authz/1''"
    by (simp add: example_authzr_def)
  show ?thesis
    by (simp add: poll_and_request_issuance_def c0 l r [unfolded u] requests_of_def u
          del: poll_loop.simps)
qed

subsection \<open>Re-enqueueing\<close>

text \<open>
  The queues the loop reaches hold entries with times only, or a single entry without a
  time: a turn that ends without a fault keeps it so.
\<close>

lemma loop_body_queue_shape:
  assumes "loop_body debug dp env net mintime waiting updated w = (Inr (waiting', updated'), w')"
    and "\<forall>x\<in>set waiting. fst x \<noteq> None"
  shows "(\<forall>x\<in>set waiting'. fst x \<noteq> None) \<or> (\<exists>a. waiting' = [(None, a)])"
proof -
  from assms(1) have "waiting \<noteq> []"
    by (auto simp add: loop_body_def heappop_def)
  then obtain en rest where h0: "heappop waiting = Some (en, rest)"
    using heappop_nonempty by blast
  obtain whn authzr where en: "en = (whn, authzr)" by (cases en)
  note h = h0 [unfolded en]
  from heappop_Some [OF h] have "set rest \<subseteq> set waiting"
    by (simp add: set_remove1_subset)
  with assms(2) have timed: "\<forall>x\<in>set rest. fst x \<noteq> None" by blast
  from heappop_Some [OF h] assms(2) obtain tm where tm: "whn = Some tm" by fastforce
  obtain p w2 where p: "poll dp env net authzr (slept tm w) = (p, w2)"
    by (cases "poll dp env net authzr (slept tm w)")
  from assms(1) have "waiting' = rest
      \<or> (\<exists>t. heappush rest (t, authzr) = Inr waiting')"
    unfolding loop_body_unfold [OF h [unfolded tm]] p
    by (cases p) (auto split: if_splits sum.splits)
  then show ?thesis
  proof
    assume "waiting' = rest"
    with timed show ?thesis by simp
  next
    assume "\<exists>t. heappush rest (t, authzr) = Inr waiting'"
    then obtain t where push: "heappush rest (t, authzr) = Inr waiting'" by blast
    show ?thesis
    proof (cases t)
      case None
      with push timed have "rest = []"
        by (cases rest) (auto simp add: heappush_def split: if_splits)
      with push None show ?thesis by (auto simp add: heappush_def)
    next
      case (Some s)
      with heappush_Inr [OF push] timed show ?thesis by auto
    qed
  qed
qed

text \<open>
  Claim C9, as the source has it, for a turn of the loop that the assertion of line 344 does
  not cut short (assertions off): when the entry popped has a time and its poll succeeds,
  a polled status of valid takes the authorization out of the queue; any other status, for
  which \<^verbatim>\<open>_retry_after\<close> computes a time, puts it back with that time; and in every turn
  that ends without a fault the authorization is back in the queue if and only if the
  polled status is not valid.
\<close>

theorem loop_body_requeues_unless_valid:
  assumes "heappop waiting = Some ((Some whn, authzr), rest)"
    and "poll dp env net authzr (slept whn w) = (Inr (updated_authzr, r), w2)"
  shows "(authz_status (authzr_body updated_authzr) = STATUS_VALID \<longrightarrow>
            loop_body False dp env net mintime waiting updated w =
              (Inr (rest, updated(authzr \<mapsto> updated_authzr)), w2))
         \<and> (authz_status (authzr_body updated_authzr) \<noteq> STATUS_VALID
              \<and> retry_after dp r mintime w2 = Inr (Some t)
              \<and> (\<forall>x\<in>set rest. fst x \<noteq> None) \<longrightarrow>
            loop_body False dp env net mintime waiting updated w =
              (Inr (rest @ [(Some t, authzr)], updated(authzr \<mapsto> updated_authzr)), w2))
         \<and> (\<forall>waiting' updated' w'.
              loop_body False dp env net mintime waiting updated w =
                (Inr (waiting', updated'), w') \<longrightarrow>
              (authz_status (authzr_body updated_authzr) = STATUS_VALID \<longrightarrow> waiting' = rest)
              \<and> (authz_status (authzr_body updated_authzr) \<noteq> STATUS_VALID \<longrightarrow>
                   (\<exists>t'. waiting' = rest @ [(t', authzr)])))"
proof -
  have eq: "loop_body False dp env net mintime waiting updated w =
     (if authz_status (authzr_body updated_authzr) \<noteq> STATUS_VALID
      then (case retry_after dp r mintime w2 of
              Inl e \<Rightarrow> (Inl e, w2)
            | Inr t \<Rightarrow>
                (case heappush rest (t, authzr) of
                   Inl e \<Rightarrow> (Inl e, w2)
                 | Inr waiting' \<Rightarrow>
                     (Inr (waiting', updated(authzr \<mapsto> updated_authzr)), w2)))
      else (Inr (rest, updated(authzr \<mapsto> updated_authzr)), w2))"
    unfolding loop_body_unfold [OF assms(1)] assms(2) by simp
  have one: "authz_status (authzr_body updated_authzr) = STATUS_VALID \<longrightarrow>
            loop_body False dp env net mintime waiting updated w =
              (Inr (rest, updated(authzr \<mapsto> updated_authzr)), w2)"
    unfolding eq by simp
  have two: "authz_status (authzr_body updated_authzr) \<noteq> STATUS_VALID
              \<and> retry_after dp r mintime w2 = Inr (Some t)
              \<and> (\<forall>x\<in>set rest. fst x \<noteq> None) \<longrightarrow>
            loop_body False dp env net mintime waiting updated w =
              (Inr (rest @ [(Some t, authzr)], updated(authzr \<mapsto> updated_authzr)), w2)"
    unfolding eq by (simp add: heappush_timed)
  have three: "\<forall>waiting' updated' w'.
              loop_body False dp env net mintime waiting updated w =
                (Inr (waiting', updated'), w') \<longrightarrow>
              (authz_status (authzr_body updated_authzr) = STATUS_VALID \<longrightarrow> waiting' = rest)
              \<and> (authz_status (authzr_body updated_authzr) \<noteq> STATUS_VALID \<longrightarrow>
                   (\<exists>t'. waiting' = rest @ [(t', authzr)]))"
    unfolding eq by (auto dest: heappush_Inr split: sum.splits)
  from one two three show ?thesis by blast
qed

theorem loop_body_requeues_unless_valid_witness:
  "loop_body False example_deps (scripted (poll_script ''pending'' ''10'')) example_net 5
     [(Some 0, example_authzr)] Map.empty world0 =
     (Inr ([(Some 10000000, example_authzr)], [example_authzr \<mapsto> polled ''pending'']),
      after_first_poll)
   \<and> loop_body False example_deps (scripted valid_script) example_net 5
     [(Some 0, example_authzr)] Map.empty world0 =
     (Inr ([], [example_authzr \<mapsto> polled ''valid'']), after_first_poll)"
proof -
  have s0: "slept 0 world0 = world0"
    by (simp add: slept_def world0_def)
  have p1: "poll example_deps (scripted (poll_script ''pending'' ''10'')) example_net
              example_authzr (slept 0 world0) =
            (Inr (polled ''pending'', poll_response ''pending'' [(''Retry-After'', ''10'')]),
             after_first_poll)"
    unfolding s0
    by (subst poll_scripted
          [where d = 0 and st = "''pending''" and hs = "[(''Retry-After'', ''10'')]"])
       (simp_all add: poll_script_def world0_def after_first_poll_def example_authzr_def)
  have p2: "poll example_deps (scripted valid_script) example_net example_authzr
              (slept 0 world0) =
            (Inr (polled ''valid'', poll_response ''valid'' []), after_first_poll)"
    unfolding s0
    by (subst poll_scripted [where d = 0 and st = "''valid''" and hs = "[]"])
       (simp_all add: valid_script_def world0_def after_first_poll_def example_authzr_def)
  have ra: "retry_after example_deps (poll_response ''pending'' [(''Retry-After'', ''10'')]) 5
              after_first_poll = Inr (Some (10 * 1000000))"
    by (rule retry_after_header [OF py_int_10]) (simp_all add: after_first_poll_def)
  have c1: "authz_status (authzr_body (polled ''pending'')) \<noteq> STATUS_VALID
            \<and> retry_after example_deps (poll_response ''pending'' [(''Retry-After'', ''10'')]) 5
                after_first_poll = Inr (Some 10000000)
            \<and> (\<forall>x\<in>set ([] :: (int option \<times> authorization_resource) list). fst x \<noteq> None)"
    using ra by (simp add: status_polled STATUS_VALID_def)
  have c2: "authz_status (authzr_body (polled ''valid'')) = STATUS_VALID"
    by (simp add: status_polled STATUS_VALID_def)
  from loop_body_requeues_unless_valid
         [OF heappop_single p1, where mintime = 5 and updated = Map.empty,
          THEN conjunct2, THEN conjunct1, rule_format, OF c1]
    loop_body_requeues_unless_valid
         [OF heappop_single p2, where mintime = 5 and updated = Map.empty,
          THEN conjunct1, rule_format, OF c2]
  show ?thesis by simp
qed

text \<open>
  Claim C9 as stated fails: with assertions off, an authorization polled with the final
  failure status \<^verbatim>\<open>invalid\<close> is put back into the queue and polled again ten seconds
  later.
\<close>

theorem invalid_status_is_requeued:
  "authz_status (authzr_body (polled ''invalid'')) = STATUS_INVALID
   \<and> map_sum id fst
       (fst (loop_body False example_deps (scripted (poll_script ''invalid'' ''10''))
               example_net 5 [(Some 0, example_authzr)] [example_authzr \<mapsto> example_authzr]
               world0))
     = Inr [(Some 10000000, example_authzr)]
   \<and> map_option (requests_of \<circ> snd)
       (poll_and_request_issuance (Suc (Suc 0)) False example_deps
          (scripted (poll_script ''invalid'' ''10'')) example_net ''csr'' [example_authzr] 5
          world0)
     = Some [(0, GET, Some ''https://ca/authz/1''),
             (10000000, GET, Some ''https://ca/authz/1''),
             (10000000, POST, Some ''https://ca/new-cert'')]"
proof -
  have s0: "slept 0 world0 = world0"
    by (simp add: slept_def world0_def)
  have n: "Status ''invalid'' \<noteq> STATUS_VALID"
    by (simp add: STATUS_VALID_def)
  have ra: "retry_after example_deps (poll_response ''invalid'' [(''Retry-After'', ''10'')]) 5
              \<lparr>clock = 0, trace = tr\<rparr> = Inr (Some (10 * 1000000))" for tr
    by (rule retry_after_header [OF py_int_10]) simp_all
  have e: "loop_body False example_deps (scripted (poll_script ''invalid'' ''10'')) example_net 5
     [(Some 0, example_authzr)] [example_authzr \<mapsto> example_authzr] world0 =
     (Inr ([(Some 10000000, example_authzr)], [example_authzr \<mapsto> polled ''invalid'']),
      after_first_poll)"
    by (subst loop_body_scripted
          [where d = 0 and st = "''invalid''" and hs = "[(''Retry-After'', ''10'')]"])
       (simp_all add: poll_script_def world0_def s0 [unfolded world0_def] ra
          STATUS_VALID_def after_first_poll_def example_authzr_def)
  have r: "map_option (requests_of \<circ> snd)
       (poll_and_request_issuance (Suc (Suc 0)) False example_deps
          (scripted (poll_script ''invalid'' ''10'')) example_net ''csr'' [example_authzr] 5
          world0)
     = Some [(0, GET, Some ''https://ca/authz/1''),
             ((10 mod 86400) * 1000000, GET, Some ''https://ca/authz/1''),
             ((10 mod 86400) * 1000000, POST, Some ''https://ca/new-cert'')]"
    by (rule run_poll_script [OF n py_int_10]) simp_all
  from r e show ?thesis
    by (simp add: status_polled STATUS_INVALID_def)
qed

subsection \<open>Due times\<close>

text \<open>
  Claim C1 on a run with assertions off: the first poll is answered with
  \<^verbatim>\<open>Retry-After: 100000\<close>, the entry is enqueued with the due time 100000 s, and the
  next poll is sent at 13600 s: \<^verbatim>\<open>(when - now).seconds\<close> drops the whole day of the
  difference.
\<close>

theorem poll_issued_before_due_time:
  "map_sum id fst
     (fst (loop_body False example_deps (scripted (poll_script ''pending'' ''100000''))
             example_net 5 [(Some 0, example_authzr)] [example_authzr \<mapsto> example_authzr]
             world0))
     = Inr [(Some 100000000000, example_authzr)]
   \<and> map_option (requests_of \<circ> snd)
       (poll_and_request_issuance (Suc (Suc 0)) False example_deps
          (scripted (poll_script ''pending'' ''100000'')) example_net ''csr'' [example_authzr] 5
          world0)
     = Some [(0, GET, Some ''https://ca/authz/1''),
             (13600000000, GET, Some ''https://ca/authz/1''),
             (13600000000, POST, Some ''https://ca/new-cert'')]"
proof -
  have s0: "slept 0 world0 = world0"
    by (simp add: slept_def world0_def)
  have n: "Status ''pending'' \<noteq> STATUS_VALID"
    by (simp add: STATUS_VALID_def)
  have ra: "retry_after example_deps (poll_response ''pending'' [(''Retry-After'', ''100000'')])
              5 \<lparr>clock = 0, trace = tr\<rparr> = Inr (Some (100000 * 1000000))" for tr
    by (rule retry_after_header [OF py_int_100000]) simp_all
  have e: "loop_body False example_deps (scripted (poll_script ''pending'' ''100000''))
     example_net 5 [(Some 0, example_authzr)] [example_authzr \<mapsto> example_authzr] world0 =
     (Inr ([(Some 100000000000, example_authzr)], [example_authzr \<mapsto> polled ''pending'']),
      after_first_poll)"
    by (subst loop_body_scripted
          [where d = 0 and st = "''pending''" and hs = "[(''Retry-After'', ''100000'')]"])
       (simp_all add: poll_script_def world0_def s0 [unfolded world0_def] ra
          STATUS_VALID_def after_first_poll_def example_authzr_def)
  have r: "map_option (requests_of \<circ> snd)
       (poll_and_request_issuance (Suc (Suc 0)) False example_deps
          (scripted (poll_script ''pending'' ''100000'')) example_net ''csr'' [example_authzr] 5
          world0)
     = Some [(0, GET, Some ''https://ca/authz/1''),
             ((100000 mod 86400) * 1000000, GET, Some ''https://ca/authz/1''),
             ((100000 mod 86400) * 1000000, POST, Some ''https://ca/new-cert'')]"
    by (rule run_poll_script [OF n py_int_100000]) simp_all
  from r e show ?thesis
    by simp
qed

subsection \<open>Issuance\<close>

text \<open>
  Claim C3 on a run with assertions on: the only authorization is polled once and is valid,
  the assertion of the loop fails, and no certificate request is sent, whatever the fuel.
\<close>

theorem issuance_aborted_by_assertion:
  "poll example_deps (scripted valid_script) example_net example_authzr world0 =
     (Inr (polled ''valid'', poll_response ''valid'' []), after_first_poll)
   \<and> authz_status (authzr_body (polled ''valid'')) = STATUS_VALID
   \<and> poll_and_request_issuance (Suc n) True example_deps (scripted valid_script) example_net
       ''csr'' [example_authzr] 5 world0 = Some (Inl AssertionError, after_first_poll)
   \<and> requests_of after_first_poll = [(0, GET, Some ''https://ca/authz/1'')]"
proof -
  have p: "poll example_deps (scripted valid_script) example_net example_authzr world0 =
             (Inr (polled ''valid'', poll_response ''valid'' []), after_first_poll)"
    by (subst poll_scripted [where d = 0 and st = "''valid''" and hs = "[]"])
       (simp_all add: valid_script_def world0_def after_first_poll_def example_authzr_def)
  have s0: "slept (clock world0) world0 = world0"
    by (simp add: slept_def)
  have b: "loop_body True example_deps (scripted valid_script) example_net 5
             [(Some (clock world0), example_authzr)] upd world0 =
           (Inl AssertionError, after_first_poll)"
    for upd
    unfolding loop_body_unfold [OF heappop_single] s0 p
    by (simp add: uri_eq_resource_def)
  have r: "poll_and_request_issuance (Suc n) True example_deps (scripted valid_script)
             example_net ''csr'' [example_authzr] 5 world0 =
           Some (Inl AssertionError, after_first_poll)"
    by (simp add: poll_and_request_issuance_def b)
  show ?thesis
    using p r by (simp add: status_polled STATUS_VALID_def requests_of_def after_first_poll_def)
qed

end
